theory Spec2Isabelle
  imports Complex_Main "HOL-Library.AList" "HOL-Library.Char_ord" "HOL-Library.List_Lexorder" "HOL-Library.Product_Lexorder"
begin

section \<open>Python strings\<close>

text \<open>
  A Python \<open>str\<close> is modelled as a \<^typ>\<open>string\<close>; a character stands for the code
  point of the same number (U+0000 to U+00FF).
\<close>

definition py_isspace :: "char \<Rightarrow> bool" where
  "py_isspace c \<longleftrightarrow> c \<in> set [CHR 0x09, CHR 0x0A, CHR 0x0B, CHR 0x0C, CHR 0x0D,
     CHR 0x1C, CHR 0x1D, CHR 0x1E, CHR 0x1F, CHR 0x20, CHR 0x85, CHR 0xA0]"

definition is_linebreak :: "char \<Rightarrow> bool" where
  "is_linebreak c \<longleftrightarrow> c \<in> set [CHR 0x0A, CHR 0x0B, CHR 0x0C, CHR 0x0D,
     CHR 0x1C, CHR 0x1D, CHR 0x1E, CHR 0x85]"

definition startswith :: "string \<Rightarrow> string \<Rightarrow> bool" where
  "startswith s p \<longleftrightarrow> take (length p) s = p"

definition endswith :: "string \<Rightarrow> string \<Rightarrow> bool" where
  "endswith s p \<longleftrightarrow> length p \<le> length s \<and> drop (length s - length p) s = p"

text \<open>\<open>removeprefix\<close> and \<open>removesuffix\<close> of the source; \<open>string[:-len(suffix)]\<close> is
  \<open>string[:0]\<close> for the empty suffix.\<close>

definition removeprefix :: "string \<Rightarrow> string \<Rightarrow> string" where
  "removeprefix s p = (if startswith s p then drop (length p) s else s)"

definition removesuffix :: "string \<Rightarrow> string \<Rightarrow> string" where
  "removesuffix s p =
     (if endswith s p then (if p = [] then [] else take (length s - length p) s) else s)"

definition strip :: "string \<Rightarrow> string" where
  "strip s = rev (dropWhile py_isspace (rev (dropWhile py_isspace s)))"

text \<open>\<open>str.splitlines()\<close>: \<open>cur\<close> is the line being read.\<close>

fun splitlines_from :: "string \<Rightarrow> string \<Rightarrow> string list" where
  "splitlines_from cur [] = (if cur = [] then [] else [cur])"
| "splitlines_from cur [c] = (if is_linebreak c then [cur] else [cur @ [c]])"
| "splitlines_from cur (c # d # cs) =
     (if c = CHR 0x0D \<and> d = CHR 0x0A then cur # splitlines_from [] cs
      else if is_linebreak c then cur # splitlines_from [] (d # cs)
      else splitlines_from (cur @ [c]) (d # cs))"

definition splitlines :: "string \<Rightarrow> string list" where
  "splitlines s = splitlines_from [] s"

fun join :: "string \<Rightarrow> string list \<Rightarrow> string" where
  "join sep [] = []"
| "join sep [x] = x"
| "join sep (x # y # ys) = x @ sep @ join sep (y # ys)"


text \<open>\<open>str.replace(old, new)\<close>: occurrences are replaced from left to right without
  overlap; for the empty \<open>old\<close> Python inserts \<open>new\<close> around every character.\<close>

function replace_nonempty :: "string \<Rightarrow> string \<Rightarrow> string \<Rightarrow> string" where
  "replace_nonempty old new s =
     (if old = [] \<or> s = [] then s
      else if startswith s old then new @ replace_nonempty old new (drop (length old) s)
      else hd s # replace_nonempty old new (tl s))"
  by pat_completeness auto
termination
  by (relation "measure (\<lambda>(old, new, s). length s)") auto

declare replace_nonempty.simps [simp del]

definition py_replace :: "string \<Rightarrow> string \<Rightarrow> string \<Rightarrow> string" where
  "py_replace s old new =
     (if old = [] then new @ concat (map (\<lambda>c. c # new) s) else replace_nonempty old new s)"

text \<open>\<open>str.split(sep)\<close> for a one-character separator, and \<open>str.split(sep, 1)\<close>.\<close>

fun split_from :: "char \<Rightarrow> string \<Rightarrow> string \<Rightarrow> string list" where
  "split_from sep cur [] = [cur]"
| "split_from sep cur (c # cs) =
     (if c = sep then cur # split_from sep [] cs else split_from sep (cur @ [c]) cs)"

definition py_split :: "string \<Rightarrow> char \<Rightarrow> string list" where
  "py_split s sep = split_from sep [] s"

definition split_once :: "string \<Rightarrow> char \<Rightarrow> string \<times> string" where
  "split_once s sep = (takeWhile (\<lambda>c. c \<noteq> sep) s, tl (dropWhile (\<lambda>c. c \<noteq> sep) s))"

text \<open>\<open>re.split("[ \t]+", line)\<close>: the fields between maximal runs of spaces and tabs.\<close>

definition is_blank :: "char \<Rightarrow> bool" where
  "is_blank c \<longleftrightarrow> c = CHR 0x20 \<or> c = CHR 0x09"

function split_blanks_from :: "string \<Rightarrow> string \<Rightarrow> string list" where
  "split_blanks_from cur [] = [cur]"
| "split_blanks_from cur (c # cs) =
     (if is_blank c then cur # split_blanks_from [] (dropWhile is_blank cs)
      else split_blanks_from (cur @ [c]) cs)"
  by pat_completeness auto
termination
  by (relation "measure (\<lambda>(cur, s). length s)")
    (auto simp: less_Suc_eq_le length_dropWhile_le)

definition split_blanks :: "string \<Rightarrow> string list" where
  "split_blanks line = split_blanks_from [] line"

text \<open>\<open>str.lower()\<close> on the code points below U+0100.\<close>

definition lower_char :: "char \<Rightarrow> char" where
  "lower_char c =
     (let n = of_char c :: nat in
      if (0x41 \<le> n \<and> n \<le> 0x5A) \<or> (0xC0 \<le> n \<and> n \<le> 0xDE \<and> n \<noteq> 0xD7)
      then char_of (n + 0x20) else c)"

definition lower :: "string \<Rightarrow> string" where
  "lower s = map lower_char s"

text \<open>Indexing and slicing of a Python list.\<close>

definition py_index :: "'a list \<Rightarrow> int \<Rightarrow> 'a option" where
  "py_index xs i =
     (if 0 \<le> i \<and> i < int (length xs) then Some (xs ! nat i)
      else if i < 0 \<and> - int (length xs) \<le> i then Some (xs ! nat (int (length xs) + i))
      else None)"

definition slice_bound :: "nat \<Rightarrow> int \<Rightarrow> nat" where
  "slice_bound n i = (if i < 0 then nat (max 0 (int n + i)) else min n (nat i))"

definition py_slice :: "'a list \<Rightarrow> int \<Rightarrow> int \<Rightarrow> 'a list" where
  "py_slice xs a b =
     (let lo = slice_bound (length xs) a; hi = slice_bound (length xs) b
      in take (hi - lo) (drop lo xs))"

definition py_slice_to :: "'a list \<Rightarrow> int \<Rightarrow> 'a list" where
  "py_slice_to xs b = take (slice_bound (length xs) b) xs"

definition py_slice_from :: "'a list \<Rightarrow> int \<Rightarrow> 'a list" where
  "py_slice_from xs a = drop (slice_bound (length xs) a) xs"

text \<open>\<open>str(n)\<close> and \<open>int(s)\<close>, \<open>int(s, 16)\<close>. \<open>int\<close> strips white space, reads a sign, an
  optional \<open>0x\<close> prefix for base 16, and digits that single underscores may separate.\<close>

fun str_nat :: "nat \<Rightarrow> string" where
  "str_nat n = (if n < 10 then [char_of (0x30 + n)] else str_nat (n div 10) @ [char_of (0x30 + n mod 10)])"

declare str_nat.simps [simp del]

definition str_int :: "int \<Rightarrow> string" where
  "str_int i = (if i < 0 then CHR ''-'' # str_nat (nat (- i)) else str_nat (nat i))"

definition digit_value :: "nat \<Rightarrow> char \<Rightarrow> nat option" where
  "digit_value base c =
     (let n = of_char c :: nat;
          v = (if 0x30 \<le> n \<and> n \<le> 0x39 then Some (n - 0x30)
               else if 0x61 \<le> n \<and> n \<le> 0x7A then Some (n - 0x61 + 10)
               else if 0x41 \<le> n \<and> n \<le> 0x5A then Some (n - 0x41 + 10)
               else None)
      in case v of Some d \<Rightarrow> (if d < base then Some d else None) | None \<Rightarrow> None)"

fun digits_from :: "nat \<Rightarrow> nat \<Rightarrow> bool \<Rightarrow> string \<Rightarrow> nat option" where
  "digits_from base acc after_digit [] = (if after_digit then Some acc else None)"
| "digits_from base acc after_digit (c # cs) =
     (if c = CHR ''_'' then (if after_digit then digits_from base acc False cs else None)
      else case digit_value base c of
             None \<Rightarrow> None
           | Some d \<Rightarrow> digits_from base (acc * base + d) True cs)"

definition int_of_str :: "nat \<Rightarrow> string \<Rightarrow> int option" where
  "int_of_str base s =
     (let t = strip s;
          neg = startswith t ''-'' \<and> t \<noteq> [];
          u = (if t \<noteq> [] \<and> (hd t = CHR ''-'' \<or> hd t = CHR ''+'') then tl t else t);
          v = (if base = 16 \<and> (startswith u ''0x'' \<or> startswith u ''0X'')
               then (let w = drop 2 u in if startswith w ''_'' \<and> w \<noteq> [] then tl w else w)
               else u)
      in case digits_from base 0 False v of
           None \<Rightarrow> None
         | Some n \<Rightarrow> Some (if neg then - int n else int n))"

definition py_int :: "string \<Rightarrow> int option" where
  "py_int s = int_of_str 10 s"

definition py_int16 :: "string \<Rightarrow> int option" where
  "py_int16 s = int_of_str 16 s"


section \<open>Data model\<close>

text \<open>The status codes of \<open>CommandResults\<close>, in the order of their numbers 0 to 20.\<close>

datatype CommandResults =
    Ok | UndefinedError | RegexError | IOError | InvalidLine | InvalidEnvValue
  | MissingParameter | UnknownArgument | NoCommands | CommandError | CommandNotFoundError
  | CommandExecFailedError | CommandOSError | InvalidOutputMode | InvalidSortFlag
  | InvalidSortColumn | InvalidSortValue | InvalidSumFlag | InvalidSumValue
  | InvalidFilterFlag | Not_result

text \<open>The Python exceptions the program can raise; \<open>ReError\<close> is \<open>re.error\<close> and
  \<open>PyException\<close> the plain \<open>Exception\<close>.\<close>

datatype py_exception =
    ParameterCountError | ValueError | IndexError | TypeError | AttributeError
  | OSError | ReError | PyException

text \<open>A captured parameter: the token itself, or what \<open>param_convert\<close> made of it.\<close>

datatype pyval = PyStr string | PyInt int

text \<open>
  The fields of \<open>CommandProcessor\<close> that handlers read and write. \<open>world\<close> is the state of
  everything outside the process (file system, clock, child processes). The argument list
  \<open>self.args\<close> is kept apart: only the parsing functions touch it.
\<close>

record 'w proc =
  working_dir :: string
  env :: "(string \<times> string) list"
  current_output :: string
  stdout_mode :: string
  stdout_path :: "string option"
  stderr_mode :: string
  stderr_path :: "string option"
  stop_on_error :: bool
  world :: 'w

text \<open>What a call does: it returns a status (\<open>None\<close> is Python's \<open>None\<close>) or raises.\<close>

datatype 's outcome = Return "CommandResults option" 's | Raise py_exception 's

record 'w Command =
  arg_long :: string
  arg_short :: "string option"
  param_names :: "string list"
  param_count :: int
  param_until :: "string option"
  param_convert :: "(string \<Rightarrow> py_exception + pyval) option"
  func :: "pyval list \<Rightarrow> 'w proc \<Rightarrow> 'w proc outcome"

text \<open>Python truthiness of an optional string and of an optional list.\<close>

definition truthy :: "'a list option \<Rightarrow> bool" where
  "truthy x = (case x of None \<Rightarrow> False | Some v \<Rightarrow> v \<noteq> [])"

text \<open>\<open>Command.__init__\<close> followed by \<open>Command.__call__\<close>, which attaches the handler.\<close>

definition Command_init ::
  "string \<Rightarrow> string option \<Rightarrow> string list option \<Rightarrow> int \<Rightarrow> string option \<Rightarrow>
   (string \<Rightarrow> py_exception + pyval) option \<Rightarrow> (pyval list \<Rightarrow> 'w proc \<Rightarrow> 'w proc outcome) \<Rightarrow>
   'w Command" where
  "Command_init long short names count until convert f =
     \<lparr> arg_long = long,
       arg_short = short,
       param_names = (if truthy names then the names
                      else map (\<lambda>i. ''ARG'' @ str_nat i) [0 ..< nat count]),
       param_count = (if count \<ge> 0 then count
                      else if truthy until then - 1
                      else if truthy names then int (length (the names))
                      else 0),
       param_until = until,
       param_convert = convert,
       func = f \<rparr>"

section \<open>Command line parsing\<close>

text \<open>
  \<open>parse_command\<close>: the result is the exception raised or the boolean returned, and
  \<open>self.args\<close> as the call leaves it.
\<close>

definition parse_command ::
  "string \<Rightarrow> string option \<Rightarrow> int \<Rightarrow> string list \<Rightarrow> (py_exception + bool) \<times> string list" where
  "parse_command long short requires args =
     (case args of
        [] \<Rightarrow> (Inl IndexError, args)
      | arg # rest \<Rightarrow>
          (let matched =
             (if startswith arg long then
                (let a = removeprefix arg long in
                 if startswith a ''='' then Some (removeprefix a ''='' # rest)
                 else if a = [] then Some rest
                 else None)
              else if Some arg = short then Some rest
              else None)
           in case matched of
                None \<Rightarrow> (Inr False, args)
              | Some args' \<Rightarrow>
                  if int (length args') < requires then (Inl ParameterCountError, args')
                  else (Inr True, args')))"

text \<open>The list comprehension over \<open>param_convert\<close>: the first failure is raised.\<close>

fun convert_all :: "(string \<Rightarrow> py_exception + pyval) \<Rightarrow> string list \<Rightarrow> py_exception + pyval list" where
  "convert_all f [] = Inr []"
| "convert_all f (a # as) =
     (case f a of
        Inl e \<Rightarrow> Inl e
      | Inr v \<Rightarrow> (case convert_all f as of Inl e \<Rightarrow> Inl e | Inr vs \<Rightarrow> Inr (v # vs)))"

definition parse_command_params ::
  "'w Command \<Rightarrow> string list \<Rightarrow> (py_exception + pyval list) \<times> string list" where
  "parse_command_params command self_args =
     (let args = (if param_count command \<ge> 0 then take (nat (param_count command)) self_args
                  else self_args)
      in if truthy (param_until command) \<and> the (param_until command) \<notin> set args
         then (Inl ParameterCountError, self_args)
         else
           (let args' = (if truthy (param_until command)
                         then takeWhile (\<lambda>a. a \<noteq> the (param_until command)) args
                         else args);
                rest = (if truthy (param_until command)
                        then drop (length args' + 1) self_args
                        else drop (length args') self_args)
            in case param_convert command of
                 None \<Rightarrow> (Inr (map PyStr args'), rest)
               | Some f \<Rightarrow> (convert_all f args', rest)))"

text \<open>
  One pass of the \<open>for\<close> loop over the registry in \<open>parse_commands\<close>: no command took the
  head token, parsing raised, or a handler was called with its parameters.
\<close>

datatype 'w dispatched =
    NoMatch
  | ParseRaised py_exception "string list"
  | Invoked string "pyval list" "string list" "'w proc outcome"

fun dispatch :: "'w Command list \<Rightarrow> string list \<Rightarrow> 'w proc \<Rightarrow> 'w dispatched" where
  "dispatch [] args s = NoMatch"
| "dispatch (c # cs) args s =
     (case parse_command (arg_long c) (arg_short c) (param_count c) args of
        (Inl e, args') \<Rightarrow> ParseRaised e args'
      | (Inr False, args') \<Rightarrow> dispatch cs args s
      | (Inr True, args') \<Rightarrow>
          (case parse_command_params c args' of
             (Inl e, args'') \<Rightarrow> ParseRaised e args''
           | (Inr ps, args'') \<Rightarrow> Invoked (arg_long c) ps args'' (func c ps s)))"


text \<open>
  What a run of the interpreter leaves behind: the value \<open>parse_commands\<close> returns or the
  exception it lets escape, the arguments not consumed, the processor, and the handler
  calls made, in order (the line \<open>Executing command\<close> that the source has commented out).
\<close>

record 'w run =
  result :: "py_exception + CommandResults option"
  remaining :: "string list"
  final :: "'w proc"
  calls :: "(string \<times> pyval list) list"

definition is_PyStr :: "pyval \<Rightarrow> bool" where
  "is_PyStr v = (case v of PyStr _ \<Rightarrow> True | PyInt _ \<Rightarrow> False)"

text \<open>The \<open>except ParameterCountError\<close> clause around the body of the loop.\<close>

definition caught :: "py_exception \<Rightarrow> py_exception + CommandResults option" where
  "caught e = (if e = ParameterCountError then Inr (Some MissingParameter) else Inl e)"

definition args_weight :: "string list \<Rightarrow> nat" where
  "args_weight args = sum_list (map (\<lambda>a. Suc (length a)) args)"

lemma args_weight_Nil [simp]: "args_weight [] = 0"
  by (simp add: args_weight_def)

lemma args_weight_drop: "args_weight (drop n args) \<le> args_weight args"
proof (induction args arbitrary: n)
  case Nil
  then show ?case by (simp add: args_weight_def)
next
  case (Cons a as)
  show ?case
  proof (cases n)
    case 0
    then show ?thesis by simp
  next
    case (Suc m)
    have "args_weight (drop m as) \<le> args_weight as" by (rule Cons.IH)
    then show ?thesis using Suc by (simp add: args_weight_def)
  qed
qed

lemma parse_command_weight:
  assumes "parse_command long short requires args = (Inr True, args')"
  shows "args_weight args' < args_weight args"
proof (cases args)
  case Nil
  with assms show ?thesis by (simp add: parse_command_def)
next
  case (Cons arg rest)
  have len: "length (removeprefix arg long) \<le> length arg"
    by (simp add: removeprefix_def)
  have eq: "startswith a ''='' \<Longrightarrow> length (removeprefix a ''='') < length a" for a
    by (cases a) (auto simp: removeprefix_def startswith_def)
  from assms Cons len eq [of "removeprefix arg long"] show ?thesis
    by (auto simp: parse_command_def Let_def args_weight_def
        split: if_splits option.splits)
qed

lemma parse_command_params_weight:
  assumes "parse_command_params c args = (r, args')"
  shows "args_weight args' \<le> args_weight args"
  using assms args_weight_drop [of _ args]
  by (auto simp: parse_command_params_def Let_def split: if_splits option.splits)

lemma dispatch_weight:
  assumes "dispatch reg args s = Invoked name ps args' out"
  shows "args_weight args' < args_weight args"
  using assms
proof (induction reg)
  case Nil
  then show ?case by simp
next
  case (Cons c cs)
  obtain r a1 where pc: "parse_command (arg_long c) (arg_short c) (param_count c) args = (r, a1)"
    by (cases "parse_command (arg_long c) (arg_short c) (param_count c) args")
  show ?case
  proof (cases r)
    case (Inl e)
    with Cons.prems pc show ?thesis by simp
  next
    case (Inr b)
    show ?thesis
    proof (cases b)
      case False
      with Cons pc Inr show ?thesis by simp
    next
      case True
      obtain r2 a2 where pp: "parse_command_params c a1 = (r2, a2)"
        by (cases "parse_command_params c a1")
      from Cons.prems pc Inr True pp have "args' = a2"
        by (cases r2) auto
      moreover from pc Inr True have "args_weight a1 < args_weight args"
        by (simp add: parse_command_weight)
      moreover from pp have "args_weight a2 \<le> args_weight a1"
        by (rule parse_command_params_weight)
      ultimately show ?thesis by simp
    qed
  qed
qed

text \<open>
  The \<open>while\<close> loop of \<open>parse_commands\<close>; \<open>res\<close> is the local variable \<open>result\<close> and
  \<open>tr\<close> the handler calls made so far. Printing is left out. The message printed when a
  stage fails joins the parameters with \<open>' '.join\<close>, which raises a \<open>TypeError\<close> on a
  parameter that is not a string.
\<close>

function parse_commands_loop ::
  "'w Command list \<Rightarrow> string list \<Rightarrow> 'w proc \<Rightarrow> CommandResults option \<Rightarrow>
   (string \<times> pyval list) list \<Rightarrow> 'w run" where
  "parse_commands_loop reg args s res tr =
     (if args = [] then \<lparr> result = Inr res, remaining = args, final = s, calls = tr \<rparr>
      else case dispatch reg args s of
        NoMatch \<Rightarrow>
          \<lparr> result = Inr (Some UnknownArgument), remaining = args, final = s, calls = tr \<rparr>
      | ParseRaised e args' \<Rightarrow>
          \<lparr> result = caught e, remaining = args', final = s, calls = tr \<rparr>
      | Invoked name ps args' (Raise e s') \<Rightarrow>
          \<lparr> result = caught e, remaining = args', final = s', calls = tr @ [(name, ps)] \<rparr>
      | Invoked name ps args' (Return r s') \<Rightarrow>
          if r = Some UnknownArgument then
            \<lparr> result = (if args' = [] then Inl IndexError else Inr r),
              remaining = args', final = s', calls = tr @ [(name, ps)] \<rparr>
          else if r \<noteq> Some Ok \<and> stop_on_error s' then
            \<lparr> result = (if ps \<noteq> [] \<and> \<not> list_all is_PyStr ps then Inl TypeError else Inr r),
              remaining = args', final = s', calls = tr @ [(name, ps)] \<rparr>
          else parse_commands_loop reg args' s' r (tr @ [(name, ps)]))"
  by pat_completeness auto
termination
  by (relation "measure (\<lambda>(reg, args, s, res, tr). args_weight args)")
    (auto simp: dispatch_weight)

declare parse_commands_loop.simps [simp del]

definition parse_commands :: "'w Command list \<Rightarrow> string list \<Rightarrow> 'w proc \<Rightarrow> 'w run" where
  "parse_commands reg args s = parse_commands_loop reg args s (Some NoCommands) []"


section \<open>The host\<close>

text \<open>
  What the program takes from outside itself: the platform, the \<open>re\<close> module, \<open>float\<close>,
  the file system and child processes. The handlers are functions of a host, and the
  theorems hold for every host. A compiled pattern is identified with its source text.
  \<open>float\<close> yields a rational, an infinity or \<open>nan\<close>. \<open>sorted_long\<close> is what
  \<open>list.sort\<close> makes of 64 or more pairs of a key and a line when one of the keys is
  \<open>nan\<close>: the merge passes of that case are not modelled.
\<close>

datatype xnum = NegInf | Fin rat | PosInf | NaN

text \<open>\<open>pattern.search(line)\<close> followed by \<open>match.group("value")\<close>: no match, no group of
  that name (\<open>IndexError\<close>), a group that took no part in the match (\<open>None\<close>), or its text.\<close>

datatype group_result = NoMatch_value | NoGroup | GroupNone | Group string

datatype pynum = NumInt int | NumFloat xnum

record 'w host =
  os_name :: string
  sys_platform :: string
  environ :: "(string \<times> string) list"
  path_exists :: "'w \<Rightarrow> string \<Rightarrow> bool"
  path_isdir :: "'w \<Rightarrow> string \<Rightarrow> bool"
  path_isfile :: "'w \<Rightarrow> string \<Rightarrow> bool"
  path_islink :: "'w \<Rightarrow> string \<Rightarrow> bool"
  path_dirname :: "string \<Rightarrow> string"
  path_basename :: "string \<Rightarrow> string"
  glob :: "'w \<Rightarrow> string \<Rightarrow> string list"
  open_read :: "'w \<Rightarrow> string \<Rightarrow> py_exception + string"
  write_text :: "'w \<Rightarrow> string \<Rightarrow> bool \<Rightarrow> string \<Rightarrow> py_exception option \<times> 'w"
  makedirs :: "'w \<Rightarrow> string \<Rightarrow> py_exception option \<times> 'w"
  touch_path :: "'w \<Rightarrow> string \<Rightarrow> py_exception option \<times> 'w"
  os_symlink :: "'w \<Rightarrow> string \<Rightarrow> string \<Rightarrow> py_exception option \<times> 'w"
  rmtree :: "'w \<Rightarrow> string \<Rightarrow> py_exception option \<times> 'w"
  copytree :: "'w \<Rightarrow> string \<Rightarrow> string \<Rightarrow> py_exception option \<times> 'w"
  copy2 :: "'w \<Rightarrow> string \<Rightarrow> string \<Rightarrow> py_exception option \<times> 'w"
  exec_cmd :: "'w proc \<Rightarrow> string \<Rightarrow> string list \<Rightarrow> (py_exception + CommandResults \<times> string) \<times> 'w"
  cygcheck_version :: "'w \<Rightarrow> string option"
  mingw_get_version :: "'w \<Rightarrow> string option"
  now_timestamp :: "'w \<Rightarrow> int"
  re_compile :: "string \<Rightarrow> py_exception option"
  re_search :: "string \<Rightarrow> string \<Rightarrow> bool"
  re_search_value :: "string \<Rightarrow> string \<Rightarrow> group_result"
  re_sub :: "string \<Rightarrow> string \<Rightarrow> string \<Rightarrow> py_exception + string"
  py_float :: "string \<Rightarrow> xnum option"
  sorted_long :: "(xnum \<times> string) list \<Rightarrow> (xnum \<times> string) list"
  str_upper :: "string \<Rightarrow> string"
  format_sum :: "string \<Rightarrow> pynum list \<Rightarrow> py_exception + string"

definition is_windows :: "'w host \<Rightarrow> bool" where
  "is_windows h \<longleftrightarrow> os_name h = ''nt'' \<or> sys_platform h = ''cygwin''"

definition is_cygwin_env :: "'w host \<Rightarrow> 'w \<Rightarrow> bool" where
  "is_cygwin_env h w = path_isdir h w ''/cygdrive''"

definition is_msys2_env :: "'w host \<Rightarrow> 'w \<Rightarrow> bool" where
  "is_msys2_env h w \<longleftrightarrow>
     map_of (environ h) ''MSYSTEM'' \<noteq> None \<or> path_exists h w ''/mingw64'' \<or>
     path_exists h w ''/mingw32'' \<or>
     lower (case map_of (environ h) ''MSYS'' of None \<Rightarrow> [] | Some v \<Rightarrow> v) = ''true''"

section \<open>Handlers\<close>

text \<open>The buffer with the separator that the input commands put before what they add.\<close>

definition with_separator :: "string \<Rightarrow> string" where
  "with_separator out = (if out \<noteq> [] then out @ ''\<newline>'' else out)"

subsection \<open>Utilities\<close>

definition set_env :: "string \<Rightarrow> 'w proc \<Rightarrow> 'w proc outcome" where
  "set_env e s =
     (if CHR ''='' \<in> set e
      then (case split_once e (CHR ''='') of
              (key, val) \<Rightarrow> Return (Some Ok) (s\<lparr>env := AList.update key val (env s)\<rparr>))
      else Return (Some InvalidEnvValue) s)"

definition set_stdout :: "string \<Rightarrow> 'w proc \<Rightarrow> 'w proc outcome" where
  "set_stdout mode s =
     (if mode \<in> set [''process'', ''print'', ''ignore'']
      then Return (Some Ok) (s\<lparr>stdout_mode := mode, stdout_path := None\<rparr>)
      else Return (Some Ok) (s\<lparr>stdout_mode := ''write'', stdout_path := Some mode\<rparr>))"

definition set_stderr :: "string \<Rightarrow> 'w proc \<Rightarrow> 'w proc outcome" where
  "set_stderr mode s =
     (if mode \<in> set [''process'', ''print'', ''ignore'']
      then Return (Some Ok) (s\<lparr>stderr_mode := mode, stderr_path := None\<rparr>)
      else Return (Some Ok) (s\<lparr>stderr_mode := ''write'', stderr_path := Some mode\<rparr>))"

definition set_exit :: "string \<Rightarrow> 'w proc \<Rightarrow> 'w proc outcome" where
  "set_exit mode s =
     (let m = lower (strip mode)
      in if m \<notin> set [''true'', ''false''] then Return (Some InvalidOutputMode) s
         else Return (Some Ok) (s\<lparr>stop_on_error := (m \<noteq> ''false'')\<rparr>))"

definition print_help :: "'w proc \<Rightarrow> 'w proc outcome" where
  "print_help s = Return (Some Ok) s"

text \<open>The class body defines \<open>platform_exec\<close> and \<open>platform_open\<close> twice; the second
  definition of each is the one the class keeps.\<close>

definition platform_exec :: "'w host \<Rightarrow> 'w proc \<Rightarrow> 'w proc outcome" where
  "platform_exec h s =
     Return (Some Ok)
       (s\<lparr>current_output :=
            with_separator (current_output s) @ (if is_windows h then ''.exe'' else [])\<rparr>)"

definition platform_open :: "'w host \<Rightarrow> 'w proc \<Rightarrow> 'w proc outcome" where
  "platform_open h s =
     Return (Some Ok) (s\<lparr>current_output := with_separator (current_output s) @ []\<rparr>)"

subsection \<open>Inputs\<close>

definition run_command :: "'w host \<Rightarrow> string \<Rightarrow> string list \<Rightarrow> 'w proc \<Rightarrow> 'w proc outcome" where
  "run_command h command args s =
     (case exec_cmd h s command args of
        (Inl e, w) \<Rightarrow> Raise e (s\<lparr>world := w\<rparr>)
      | (Inr (res, output), w) \<Rightarrow>
          (let s' = s\<lparr>world := w,
                      current_output := with_separator (current_output s) @ output\<rparr>
           in if \<not> stop_on_error s then Return (Some Ok) s' else Return (Some res) s'))"

definition append_input :: "string \<Rightarrow> 'w proc \<Rightarrow> 'w proc outcome" where
  "append_input input s =
     (let input' = py_replace (py_replace (py_replace input [CHR 0x5C, CHR ''n''] ''\<newline>'')
                      [CHR 0x5C, CHR ''t''] [CHR 0x09]) [CHR 0x5C, CHR ''r''] [CHR 0x0D]
      in Return (Some Ok) (s\<lparr>current_output := with_separator (current_output s) @ input'\<rparr>))"

text \<open>\<open>read\<close>: the separator is added inside the \<open>try\<close>, before the file is opened.\<close>

definition read_file :: "'w host \<Rightarrow> string \<Rightarrow> 'w proc \<Rightarrow> 'w proc outcome" where
  "read_file h path s =
     (let s1 = s\<lparr>current_output := with_separator (current_output s)\<rparr>
      in case open_read h (world s1) path of
           Inr text \<Rightarrow> Return (Some Ok) (s1\<lparr>current_output := current_output s1 @ text\<rparr>)
         | Inl e \<Rightarrow>
             if e = OSError then
               (if stop_on_error s1 then Return (Some IOError) s1 else Return (Some Ok) s1)
             else Raise e s1)"

definition platform :: "'w host \<Rightarrow> 'w proc \<Rightarrow> 'w proc outcome" where
  "platform h s =
     Return (Some Ok)
       (s\<lparr>current_output := with_separator (current_output s) @
            (if is_windows h then ''Windows''
             else if sys_platform h = ''linux'' then ''Linux''
             else if sys_platform h = ''darwin'' then ''MacOS''
             else ''Unknown'')\<rparr>)"

definition cygwin_version :: "'w host \<Rightarrow> 'w proc \<Rightarrow> 'w proc outcome" where
  "cygwin_version h s =
     (if \<not> is_cygwin_env h (world s) then Return (Some Not_result) s
      else case cygcheck_version h (world s) of
             None \<Rightarrow> Return (Some Not_result) s
           | Some v \<Rightarrow>
               Return (Some Ok) (s\<lparr>current_output := with_separator (current_output s) @ v\<rparr>))"

definition mingw_version :: "'w host \<Rightarrow> 'w proc \<Rightarrow> 'w proc outcome" where
  "mingw_version h s =
     (if \<not> is_msys2_env h (world s) then Return (Some Not_result) s
      else case mingw_get_version h (world s) of
             None \<Rightarrow> Return (Some Not_result) s
           | Some v \<Rightarrow>
               Return (Some Ok) (s\<lparr>current_output := with_separator (current_output s) @ v\<rparr>))"

definition timestamp :: "'w host \<Rightarrow> 'w proc \<Rightarrow> 'w proc outcome" where
  "timestamp h s =
     Return (Some Ok)
       (s\<lparr>current_output :=
            with_separator (current_output s) @ str_int (now_timestamp h (world s))\<rparr>)"

subsection \<open>Outputs\<close>

definition write_to_file :: "'w host \<Rightarrow> string \<Rightarrow> bool \<Rightarrow> 'w proc \<Rightarrow> 'w proc outcome" where
  "write_to_file h path app s =
     (let dir_path = path_dirname h path;
          (e1, w1) = (if dir_path \<noteq> [] then makedirs h (world s) dir_path else (None, world s))
      in case e1 of
           Some e \<Rightarrow> if e = OSError then Return (Some IOError) (s\<lparr>world := w1\<rparr>)
                     else Raise e (s\<lparr>world := w1\<rparr>)
         | None \<Rightarrow>
             (case write_text h w1 path app (current_output s @ ''\<newline>'') of
                (Some e, w2) \<Rightarrow> if e = OSError then Return (Some IOError) (s\<lparr>world := w2\<rparr>)
                                else Raise e (s\<lparr>world := w2\<rparr>)
              | (None, w2) \<Rightarrow> Return (Some Ok) (s\<lparr>world := w2\<rparr>)))"

definition write_file :: "'w host \<Rightarrow> string \<Rightarrow> 'w proc \<Rightarrow> 'w proc outcome" where
  "write_file h path s = write_to_file h path False s"

definition append_file :: "'w host \<Rightarrow> string \<Rightarrow> 'w proc \<Rightarrow> 'w proc outcome" where
  "append_file h path s = write_to_file h path True s"

definition print_output :: "'w proc \<Rightarrow> 'w proc outcome" where
  "print_output s = Return (Some Ok) s"


subsection \<open>Line-by-line processing\<close>

fun for_each_loop ::
  "'w host \<Rightarrow> string \<Rightarrow> string list \<Rightarrow> string list \<Rightarrow> string list \<Rightarrow> 'w proc \<Rightarrow> 'w proc outcome" where
  "for_each_loop h command args [] new_lines s =
     Return (Some Ok) (s\<lparr>current_output := join ''\<newline>'' new_lines\<rparr>)"
| "for_each_loop h command args (line # lines) new_lines s =
     (case exec_cmd h s command (args @ [line]) of
        (Inl e, w) \<Rightarrow> Raise e (s\<lparr>world := w\<rparr>)
      | (Inr (res, output), w) \<Rightarrow>
          if res \<noteq> Ok then Return (Some res) (s\<lparr>world := w\<rparr>)
          else for_each_loop h command args lines (new_lines @ [output]) (s\<lparr>world := w\<rparr>))"

definition for_each_line :: "'w host \<Rightarrow> string \<Rightarrow> string list \<Rightarrow> 'w proc \<Rightarrow> 'w proc outcome" where
  "for_each_line h command args s =
     for_each_loop h command args (splitlines (current_output s)) [] s"

definition lines :: "int \<Rightarrow> int \<Rightarrow> 'w proc \<Rightarrow> 'w proc outcome" where
  "lines line_from line_to s =
     (let ls = splitlines (current_output s);
          line_to' = (if line_to = 0 then int (length ls) else line_to)
      in Return (Some Ok) (s\<lparr>current_output := join ''\<newline>'' (py_slice ls line_from line_to')\<rparr>))"

definition remove_lines :: "int \<Rightarrow> int \<Rightarrow> 'w proc \<Rightarrow> 'w proc outcome" where
  "remove_lines line_from line_to s =
     (let ls = splitlines (current_output s);
          line_to' = (if line_to = 0 then int (length ls) else line_to)
      in Return (Some Ok)
           (s\<lparr>current_output :=
                join ''\<newline>'' (py_slice_to ls line_from @ py_slice_from ls line_to')\<rparr>))"

definition to_lower :: "'w proc \<Rightarrow> 'w proc outcome" where
  "to_lower s = Return (Some Ok) (s\<lparr>current_output := lower (current_output s)\<rparr>)"

definition to_upper :: "'w host \<Rightarrow> 'w proc \<Rightarrow> 'w proc outcome" where
  "to_upper h s = Return (Some Ok) (s\<lparr>current_output := str_upper h (current_output s)\<rparr>)"

definition filter_lines :: "'w host \<Rightarrow> string \<Rightarrow> 'w proc \<Rightarrow> 'w proc outcome" where
  "filter_lines h pattern s =
     (case re_compile h pattern of
        Some e \<Rightarrow> if e = ReError then Return (Some RegexError) s else Raise e s
      | None \<Rightarrow>
          Return (Some Ok)
            (s\<lparr>current_output :=
                 join ''\<newline>'' (filter (\<lambda>line. re_search h pattern line)
                                       (splitlines (current_output s)))\<rparr>))"

definition remove_lines_regex :: "'w host \<Rightarrow> string \<Rightarrow> 'w proc \<Rightarrow> 'w proc outcome" where
  "remove_lines_regex h pattern s =
     (case re_compile h pattern of
        Some e \<Rightarrow> if e = ReError then Return (Some RegexError) s else Raise e s
      | None \<Rightarrow>
          Return (Some Ok)
            (s\<lparr>current_output :=
                 join ''\<newline>'' (filter (\<lambda>line. \<not> re_search h pattern line)
                                       (splitlines (current_output s)))\<rparr>))"

definition remove_empty_lines :: "'w proc \<Rightarrow> 'w proc outcome" where
  "remove_empty_lines s =
     Return (Some Ok)
       (s\<lparr>current_output :=
            join ''\<newline>'' (filter (\<lambda>line. strip line \<noteq> []) (splitlines (current_output s)))\<rparr>)"

fun sub_lines :: "'w host \<Rightarrow> string \<Rightarrow> string \<Rightarrow> string list \<Rightarrow> py_exception + string list" where
  "sub_lines h pattern repl [] = Inr []"
| "sub_lines h pattern repl (line # ls) =
     (case re_sub h pattern repl line of
        Inl e \<Rightarrow> Inl e
      | Inr l' \<Rightarrow> (case sub_lines h pattern repl ls of Inl e \<Rightarrow> Inl e | Inr ls' \<Rightarrow> Inr (l' # ls')))"

definition regex_replace :: "'w host \<Rightarrow> string \<Rightarrow> string \<Rightarrow> 'w proc \<Rightarrow> 'w proc outcome" where
  "regex_replace h pattern replacements s =
     (case re_compile h pattern of
        Some e \<Rightarrow> if e = ReError then Return (Some RegexError) s else Raise e s
      | None \<Rightarrow>
          (case sub_lines h pattern replacements (splitlines (current_output s)) of
             Inl e \<Rightarrow> Raise e s
           | Inr new_lines \<Rightarrow> Return (Some Ok) (s\<lparr>current_output := join ''\<newline>'' new_lines\<rparr>)))"

subsection \<open>Sort\<close>

datatype column = ColIndex int | ColRegex string

datatype key_func = KeyIdentity | KeyFloat | KeyInt | KeyInt16 | KeyStrip

record sort_spec =
  sort_column :: column
  sort_reverse :: bool
  sort_ignore_error_lines :: bool
  sort_use_numeric :: bool
  sort_key_func :: key_func

text \<open>A sort key: \<open>None\<close>, a string, or a number (\<open>int\<close> and \<open>float\<close> compare by value).\<close>

datatype sort_key = KNone | KStr string | KNum xnum

definition unescape :: "string \<Rightarrow> string" where
  "unescape flag =
     py_replace (py_replace (py_replace flag [CHR 0x5C, CHR ''t''] [CHR 0x09])
        [CHR 0x5C, CHR ''n''] ''\<newline>'') [CHR 0x5C, CHR ''r''] [CHR 0x0D]"

definition unquote :: "string \<Rightarrow> string" where
  "unquote flag =
     removeprefix (removesuffix (removeprefix (removesuffix flag [CHR 0x22]) [CHR 0x22])
        [CHR 0x27]) [CHR 0x27]"

text \<open>The value of a \<open>column=\<close> flag: a number, or else a pattern that must compile.\<close>

definition parse_column :: "'w host \<Rightarrow> string \<Rightarrow> column option" where
  "parse_column h flag =
     (case py_int flag of
        Some n \<Rightarrow> Some (ColIndex (n - 1))
      | None \<Rightarrow>
          (let pat = unquote (unescape flag)
           in if re_compile h pat = None then Some (ColRegex pat) else None))"

fun sort_flags :: "'w host \<Rightarrow> string list \<Rightarrow> sort_spec \<Rightarrow> CommandResults + sort_spec" where
  "sort_flags h [] sp = Inr sp"
| "sort_flags h (flag # fs) sp =
     (if flag = ''none'' then sort_flags h fs sp
      else if flag = ''desc'' then sort_flags h fs (sp\<lparr>sort_reverse := True\<rparr>)
      else if flag = ''asc'' then sort_flags h fs (sp\<lparr>sort_reverse := False\<rparr>)
      else if flag = ''float'' then
        sort_flags h fs (sp\<lparr>sort_use_numeric := True, sort_key_func := KeyFloat\<rparr>)
      else if flag = ''int'' then
        sort_flags h fs (sp\<lparr>sort_use_numeric := True, sort_key_func := KeyInt\<rparr>)
      else if flag = ''int16'' then
        sort_flags h fs (sp\<lparr>sort_use_numeric := True, sort_key_func := KeyInt16\<rparr>)
      else if flag = ''strip'' then sort_flags h fs (sp\<lparr>sort_key_func := KeyStrip\<rparr>)
      else if flag = ''ignore_error_lines'' then
        sort_flags h fs (sp\<lparr>sort_ignore_error_lines := True\<rparr>)
      else if startswith flag ''column='' then
        (case parse_column h (removeprefix flag ''column='') of
           None \<Rightarrow> Inl InvalidSortColumn
         | Some c \<Rightarrow> sort_flags h fs (sp\<lparr>sort_column := c\<rparr>))
      else Inl InvalidSortFlag)"

definition sort_defaults :: sort_spec where
  "sort_defaults =
     \<lparr> sort_column = ColIndex 0, sort_reverse = False, sort_ignore_error_lines = False,
       sort_use_numeric = False, sort_key_func = KeyIdentity \<rparr>"

definition apply_key :: "'w host \<Rightarrow> key_func \<Rightarrow> string \<Rightarrow> py_exception + sort_key" where
  "apply_key h kf v =
     (case kf of
        KeyIdentity \<Rightarrow> Inr (KStr v)
      | KeyFloat \<Rightarrow> (case py_float h v of None \<Rightarrow> Inl ValueError | Some x \<Rightarrow> Inr (KNum x))
      | KeyInt \<Rightarrow> (case py_int v of None \<Rightarrow> Inl ValueError | Some n \<Rightarrow> Inr (KNum (Fin (of_int n))))
      | KeyInt16 \<Rightarrow>
          (case py_int16 v of None \<Rightarrow> Inl ValueError | Some n \<Rightarrow> Inr (KNum (Fin (of_int n))))
      | KeyStrip \<Rightarrow> Inr (KStr (strip v)))"

definition apply_key_none :: "key_func \<Rightarrow> py_exception + sort_key" where
  "apply_key_none kf =
     (case kf of
        KeyIdentity \<Rightarrow> Inr KNone
      | KeyStrip \<Rightarrow> Inl AttributeError
      | _ \<Rightarrow> Inl TypeError)"

definition sort_fallback :: "sort_spec \<Rightarrow> sort_key" where
  "sort_fallback sp =
     (if sort_use_numeric sp then KNum (if sort_reverse sp then NegInf else PosInf) else KStr [])"

text \<open>\<open>get_value\<close> of \<open>sort\<close>: the key of a line, or the exception it raises.\<close>

definition get_value :: "'w host \<Rightarrow> sort_spec \<Rightarrow> string \<Rightarrow> py_exception + sort_key" where
  "get_value h sp line =
     (case sort_column sp of
        ColIndex c \<Rightarrow>
          (let split_line = split_blanks line
           in if c \<ge> int (length split_line) then
                (if sort_ignore_error_lines sp then Inr (sort_fallback sp) else Inl PyException)
              else (case py_index split_line c of
                      None \<Rightarrow> Inl IndexError
                    | Some v \<Rightarrow> apply_key h (sort_key_func sp) v))
      | ColRegex pat \<Rightarrow>
          (case re_search_value h pat line of
             NoMatch_value \<Rightarrow>
               (if sort_ignore_error_lines sp then Inr (sort_fallback sp) else Inl PyException)
           | NoGroup \<Rightarrow>
               (if sort_ignore_error_lines sp then Inr (sort_fallback sp) else Inl IndexError)
           | GroupNone \<Rightarrow>
               (case apply_key_none (sort_key_func sp) of
                  Inr k \<Rightarrow> Inr k
                | Inl e \<Rightarrow>
                    if sort_ignore_error_lines sp then Inr (sort_fallback sp) else Inl PyException)
           | Group v \<Rightarrow>
               (case apply_key h (sort_key_func sp) v of
                  Inr k \<Rightarrow> Inr k
                | Inl e \<Rightarrow>
                    if sort_ignore_error_lines sp then Inr (sort_fallback sp)
                    else Inl PyException)))"

text \<open>
  \<open>sorted(lines, key=..., reverse=...)\<close>. The keys are computed first, and an exception of
  the key function is raised. Lists of fewer than two lines are not compared. Strings
  compare with strings and numbers with numbers; any other pair raises a \<open>TypeError\<close>.
  Where the keys are linearly ordered (strings, or numbers none of which is \<open>nan\<close>), the
  result is the stable sort that Python documents, and with \<open>reverse\<close> it is the stable
  sort of the reversed list, reversed. \<open>nan\<close> is less than nothing and nothing is less
  than \<open>nan\<close>; with such a key the result is what the algorithm of CPython makes of these
  comparisons, which is modelled below for fewer than 64 lines.
\<close>

definition is_KStr :: "py_exception + sort_key \<Rightarrow> bool" where
  "is_KStr k = (case k of Inr (KStr _) \<Rightarrow> True | _ \<Rightarrow> False)"

definition is_KNum :: "py_exception + sort_key \<Rightarrow> bool" where
  "is_KNum k = (case k of Inr (KNum _) \<Rightarrow> True | _ \<Rightarrow> False)"

definition str_of_key :: "py_exception + sort_key \<Rightarrow> string" where
  "str_of_key k = (case k of Inr (KStr v) \<Rightarrow> v | _ \<Rightarrow> [])"

text \<open>The place of a number in the order of the numbers; that of \<open>nan\<close> is never used.\<close>

definition num_rank :: "xnum \<Rightarrow> int \<times> rat" where
  "num_rank x =
     (case x of NegInf \<Rightarrow> (- 1, 0) | Fin r \<Rightarrow> (0, r) | PosInf \<Rightarrow> (1, 0) | NaN \<Rightarrow> (2, 0))"

definition num_of_key :: "py_exception + sort_key \<Rightarrow> int \<times> rat" where
  "num_of_key k = (case k of Inr (KNum x) \<Rightarrow> num_rank x | _ \<Rightarrow> (0, 0))"

definition xnum_of_key :: "py_exception + sort_key \<Rightarrow> xnum" where
  "xnum_of_key k = (case k of Inr (KNum x) \<Rightarrow> x | _ \<Rightarrow> NaN)"

definition stable_sorted :: "('a \<Rightarrow> 'k::linorder) \<Rightarrow> bool \<Rightarrow> 'a list \<Rightarrow> 'a list" where
  "stable_sorted f reverse xs = (if reverse then rev (sort_key f (rev xs)) else sort_key f xs)"

text \<open>
  \<open>list.sort\<close> of CPython (3.8 to 3.12) on fewer than 64 elements, here pairs of a key
  and a line compared by \<open>key1 < key2\<close>: \<open>count_run\<close> finds the run at the front (not
  descending, or strictly descending and then reversed), and \<open>binarysort\<close> inserts the
  other elements one by one at the place a binary search gives.
\<close>

definition xnum_lt :: "xnum \<Rightarrow> xnum \<Rightarrow> bool" where
  "xnum_lt a b \<longleftrightarrow> a \<noteq> NaN \<and> b \<noteq> NaN \<and> num_rank a < num_rank b"

definition key_lt :: "xnum \<times> 'a \<Rightarrow> xnum \<times> 'a \<Rightarrow> bool" where
  "key_lt x y = xnum_lt (fst x) (fst y)"

fun run_descending :: "xnum \<times> 'a \<Rightarrow> (xnum \<times> 'a) list \<Rightarrow> nat" where
  "run_descending prev [] = 0"
| "run_descending prev (x # xs) = (if key_lt x prev then Suc (run_descending x xs) else 0)"

fun run_ascending :: "xnum \<times> 'a \<Rightarrow> (xnum \<times> 'a) list \<Rightarrow> nat" where
  "run_ascending prev [] = 0"
| "run_ascending prev (x # xs) = (if key_lt x prev then 0 else Suc (run_ascending x xs))"

definition count_run :: "(xnum \<times> 'a) list \<Rightarrow> nat \<times> bool" where
  "count_run xs =
     (case xs of
        a # b # rest \<Rightarrow>
          if key_lt b a then (2 + run_descending b rest, True)
          else (2 + run_ascending b rest, False)
      | _ \<Rightarrow> (length xs, False))"

function bisect :: "xnum \<times> 'a \<Rightarrow> (xnum \<times> 'a) list \<Rightarrow> nat \<Rightarrow> nat \<Rightarrow> nat" where
  "bisect pivot a l r =
     (if l < r then
        (if key_lt pivot (a ! (l + (r - l) div 2)) then bisect pivot a l (l + (r - l) div 2)
         else bisect pivot a (l + (r - l) div 2 + 1) r)
      else l)"
  by pat_completeness auto
termination
  by (relation "measure (\<lambda>(pivot, a, l, r). r - l)") auto

declare bisect.simps [simp del]

definition insert_at :: "nat \<Rightarrow> 'a \<Rightarrow> 'a list \<Rightarrow> 'a list" where
  "insert_at l pivot pre = take l pre @ pivot # drop l pre"

fun binarysort :: "(xnum \<times> 'a) list \<Rightarrow> (xnum \<times> 'a) list \<Rightarrow> (xnum \<times> 'a) list" where
  "binarysort pre [] = pre"
| "binarysort pre (pivot # rest) =
     binarysort (insert_at (bisect pivot pre 0 (length pre)) pivot pre) rest"

fun sort_after_run :: "nat \<times> bool \<Rightarrow> (xnum \<times> 'a) list \<Rightarrow> (xnum \<times> 'a) list" where
  "sort_after_run (n, descending) xs =
     binarysort (if descending then rev (take n xs) else take n xs) (drop n xs)"

definition listsort_small :: "(xnum \<times> 'a) list \<Rightarrow> (xnum \<times> 'a) list" where
  "listsort_small xs = sort_after_run (count_run xs) xs"

definition listsort ::
  "((xnum \<times> string) list \<Rightarrow> (xnum \<times> string) list) \<Rightarrow> bool \<Rightarrow> (xnum \<times> string) list \<Rightarrow>
   (xnum \<times> string) list" where
  "listsort long reverse xs =
     (let sort = (if length xs < 64 then listsort_small else long)
      in if reverse then rev (sort (rev xs)) else sort xs)"

fun first_error :: "('a \<Rightarrow> py_exception + 'b) \<Rightarrow> 'a list \<Rightarrow> py_exception option" where
  "first_error f [] = None"
| "first_error f (x # xs) = (case f x of Inl e \<Rightarrow> Some e | Inr _ \<Rightarrow> first_error f xs)"

definition py_sorted ::
  "((xnum \<times> string) list \<Rightarrow> (xnum \<times> string) list) \<Rightarrow> (string \<Rightarrow> py_exception + sort_key) \<Rightarrow>
   bool \<Rightarrow> string list \<Rightarrow> py_exception + string list" where
  "py_sorted long key reverse xs =
     (case first_error key xs of
        Some e \<Rightarrow> Inl e
      | None \<Rightarrow>
          if length xs \<le> 1 then Inr xs
          else if list_all (\<lambda>x. is_KStr (key x)) xs
            then Inr (stable_sorted (\<lambda>x. str_of_key (key x)) reverse xs)
          else if list_all (\<lambda>x. is_KNum (key x)) xs
            then (if list_all (\<lambda>x. key x \<noteq> Inr (KNum NaN)) xs
                  then Inr (stable_sorted (\<lambda>x. num_of_key (key x)) reverse xs)
                  else Inr (map snd (listsort long reverse (map (\<lambda>x. (xnum_of_key (key x), x)) xs))))
          else Inl TypeError)"

definition sort_lines :: "'w host \<Rightarrow> string \<Rightarrow> 'w proc \<Rightarrow> 'w proc outcome" where
  "sort_lines h flags s =
     (case sort_flags h (py_split flags (CHR '','')) sort_defaults of
        Inl status \<Rightarrow> Return (Some status) s
      | Inr sp \<Rightarrow>
          (let ls = splitlines (current_output s)
           in if first_error (get_value h sp) ls \<noteq> None then Return (Some InvalidSortValue) s
              else (case py_sorted (sorted_long h) (get_value h sp) (sort_reverse sp) ls of
                      Inl e \<Rightarrow> Raise e s
                    | Inr sorted_lines \<Rightarrow>
                        Return (Some Ok) (s\<lparr>current_output := join ''\<newline>'' sorted_lines\<rparr>))))"

subsection \<open>Unique, reverse, first, last\<close>

text \<open>\<open>unique\<close>: \<open>unique_lines[-1]\<close> is read before anything was appended.\<close>

fun unique_loop :: "string list \<Rightarrow> string list \<Rightarrow> py_exception + string list" where
  "unique_loop [] unique_lines = Inr unique_lines"
| "unique_loop (line # ls) unique_lines =
     (case py_index unique_lines (- 1) of
        None \<Rightarrow> Inl IndexError
      | Some l \<Rightarrow> unique_loop ls (if line \<noteq> l then unique_lines @ [line] else unique_lines))"

definition unique :: "'w proc \<Rightarrow> 'w proc outcome" where
  "unique s =
     (case unique_loop (splitlines (current_output s)) [] of
        Inl e \<Rightarrow> Raise e s
      | Inr unique_lines \<Rightarrow> Return (Some Ok) (s\<lparr>current_output := join ''\<newline>'' unique_lines\<rparr>))"

definition reverse_lines :: "'w proc \<Rightarrow> 'w proc outcome" where
  "reverse_lines s =
     Return (Some Ok) (s\<lparr>current_output := join ''\<newline>'' (rev (splitlines (current_output s)))\<rparr>)"

definition first_line :: "'w proc \<Rightarrow> 'w proc outcome" where
  "first_line s =
     (let ls = splitlines (current_output s)
      in Return (Some Ok) (s\<lparr>current_output := (if length ls > 0 then hd ls else [])\<rparr>))"

definition last_line :: "'w proc \<Rightarrow> 'w proc outcome" where
  "last_line s =
     (let ls = splitlines (current_output s)
      in Return (Some Ok) (s\<lparr>current_output := (if length ls > 0 then last ls else [])\<rparr>))"


subsection \<open>Sum and count\<close>

text \<open>
  The flags of \<open>sum_lines\<close>. The precision lambda of a \<open>float=\<close> flag reads the loop
  variable \<open>flag\<close> when it is called, after the loop: \<open>sum_flag\<close> is that variable.
\<close>

datatype out_func = OutFloat | OutHex | OutDecimal | OutPrecision

record sum_spec =
  sum_column :: column
  sum_ignore_error_lines :: bool
  sum_key_func :: key_func
  sum_out_func :: out_func
  sum_flag :: string

fun sum_flags :: "'w host \<Rightarrow> string list \<Rightarrow> sum_spec \<Rightarrow> CommandResults + sum_spec" where
  "sum_flags h [] sp = Inr sp"
| "sum_flags h (flag # fs) sp =
     (if flag = ''none'' \<or> flag = ''float'' then sum_flags h fs (sp\<lparr>sum_flag := flag\<rparr>)
      else if flag = ''int16'' then
        sum_flags h fs (sp\<lparr>sum_key_func := KeyInt16, sum_out_func := OutHex, sum_flag := flag\<rparr>)
      else if flag = ''int'' then
        sum_flags h fs (sp\<lparr>sum_key_func := KeyInt, sum_out_func := OutDecimal, sum_flag := flag\<rparr>)
      else if startswith flag ''float='' then
        sum_flags h fs (sp\<lparr>sum_out_func := OutPrecision, sum_flag := removeprefix flag ''float=''\<rparr>)
      else if flag = ''ignore_error_lines'' then
        sum_flags h fs (sp\<lparr>sum_ignore_error_lines := True, sum_flag := flag\<rparr>)
      else if startswith flag ''column='' then
        (let flag' = removeprefix flag ''column=''
         in case parse_column h flag' of
              None \<Rightarrow> Inl InvalidSortColumn
            | Some c \<Rightarrow>
                sum_flags h fs
                  (sp\<lparr>sum_column := c,
                      sum_flag := (if py_int flag' = None then unescape flag' else flag')\<rparr>))
      else Inl InvalidSumFlag)"

definition sum_defaults :: sum_spec where
  "sum_defaults =
     \<lparr> sum_column = ColIndex 0, sum_ignore_error_lines = False, sum_key_func = KeyFloat,
       sum_out_func = OutFloat, sum_flag = [] \<rparr>"

definition sum_key :: "'w host \<Rightarrow> key_func \<Rightarrow> string \<Rightarrow> py_exception + pynum" where
  "sum_key h kf v =
     (case kf of
        KeyInt \<Rightarrow> (case py_int v of None \<Rightarrow> Inl ValueError | Some n \<Rightarrow> Inr (NumInt n))
      | KeyInt16 \<Rightarrow> (case py_int16 v of None \<Rightarrow> Inl ValueError | Some n \<Rightarrow> Inr (NumInt n))
      | _ \<Rightarrow> (case py_float h v of None \<Rightarrow> Inl ValueError | Some x \<Rightarrow> Inr (NumFloat x)))"

definition sum_get_value :: "'w host \<Rightarrow> sum_spec \<Rightarrow> string \<Rightarrow> py_exception + pynum" where
  "sum_get_value h sp line =
     (case sum_column sp of
        ColIndex c \<Rightarrow>
          (let split_line = split_blanks line
           in if c \<ge> int (length split_line) then
                (if sum_ignore_error_lines sp then Inr (NumInt 0) else Inl PyException)
              else (case py_index split_line c of
                      None \<Rightarrow> Inl IndexError
                    | Some v \<Rightarrow> sum_key h (sum_key_func sp) v))
      | ColRegex pat \<Rightarrow>
          (case re_search_value h pat line of
             NoMatch_value \<Rightarrow>
               (if sum_ignore_error_lines sp then Inr (NumInt 0) else Inl PyException)
           | NoGroup \<Rightarrow>
               (if sum_ignore_error_lines sp then Inr (NumInt 0) else Inl IndexError)
           | GroupNone \<Rightarrow>
               (if sum_ignore_error_lines sp then Inr (NumInt 0) else Inl PyException)
           | Group v \<Rightarrow>
               (case sum_key h (sum_key_func sp) v of
                  Inr x \<Rightarrow> Inr x
                | Inl e \<Rightarrow>
                    if sum_ignore_error_lines sp then Inr (NumInt 0) else Inl PyException)))"

definition format_spec :: "sum_spec \<Rightarrow> string" where
  "format_spec sp =
     (case sum_out_func sp of
        OutFloat \<Rightarrow> ''f''
      | OutHex \<Rightarrow> ''x''
      | OutDecimal \<Rightarrow> ''d''
      | OutPrecision \<Rightarrow> ''.'' @ sum_flag sp @ ''f'')"

fun values_of :: "('a \<Rightarrow> py_exception + 'b) \<Rightarrow> 'a list \<Rightarrow> 'b list" where
  "values_of f [] = []"
| "values_of f (x # xs) = (case f x of Inl e \<Rightarrow> values_of f xs | Inr v \<Rightarrow> v # values_of f xs)"

text \<open>The total and its text, \<open>out_func(sum(...))\<close>, are the host's \<open>format_sum\<close>.\<close>

definition sum_lines :: "'w host \<Rightarrow> string \<Rightarrow> 'w proc \<Rightarrow> 'w proc outcome" where
  "sum_lines h flags s =
     (case sum_flags h (py_split flags (CHR '','')) sum_defaults of
        Inl status \<Rightarrow> Return (Some status) s
      | Inr sp \<Rightarrow>
          (let ls = splitlines (current_output s)
           in if first_error (sum_get_value h sp) ls \<noteq> None then Return (Some InvalidSumValue) s
              else (case format_sum h (format_spec sp) (values_of (sum_get_value h sp) ls) of
                      Inl e \<Rightarrow> Raise e s
                    | Inr out \<Rightarrow> Return (Some Ok) (s\<lparr>current_output := out\<rparr>))))"

definition count_lines :: "'w proc \<Rightarrow> 'w proc outcome" where
  "count_lines s =
     Return (Some Ok) (s\<lparr>current_output := str_nat (length (splitlines (current_output s)))\<rparr>)"

subsection \<open>Path translation\<close>

definition is_letter :: "char \<Rightarrow> bool" where
  "is_letter c \<longleftrightarrow>
     (let n = of_char c :: nat in (0x41 \<le> n \<and> n \<le> 0x5A) \<or> (0x61 \<le> n \<and> n \<le> 0x7A))"

text \<open>The tail \<open>(?P<path>.*)$\<close> of the three path patterns: \<open>.\<close> takes no newline, and
  \<open>$\<close> stands at the end or before a last newline.\<close>

definition rest_of_line :: "string \<Rightarrow> string option" where
  "rest_of_line p =
     (let path = takeWhile (\<lambda>c. c \<noteq> CHR 0x0A) p; r = dropWhile (\<lambda>c. c \<noteq> CHR 0x0A) p
      in if r = [] \<or> r = ''\<newline>'' then Some path else None)"

text \<open>\<open>win_path_re\<close>, \<open>cygwin_path_re\<close> and \<open>msys2_path_re\<close> with \<open>match\<close>: the groups
  \<open>drive\<close> and \<open>path\<close>.\<close>

definition drive_and_path :: "string \<Rightarrow> (string \<times> string) option" where
  "drive_and_path r =
     (let drive = takeWhile is_letter r
      in if drive = [] then None
         else (case dropWhile is_letter r of
                 c # p \<Rightarrow> (if c = CHR ''/''
                           then (case rest_of_line p of None \<Rightarrow> None | Some path \<Rightarrow> Some (drive, path))
                           else None)
               | [] \<Rightarrow> None))"

definition win_path_match :: "string \<Rightarrow> (string \<times> string) option" where
  "win_path_match line =
     (let drive = takeWhile is_letter line
      in if drive = [] then None
         else (case dropWhile is_letter line of
                 c # r \<Rightarrow> (if c = CHR '':''
                           then (case r of
                                   d # p \<Rightarrow>
                                     (if d = CHR 0x5C \<or> d = CHR ''/''
                                      then (case rest_of_line p of
                                              None \<Rightarrow> None
                                            | Some path \<Rightarrow> Some (drive, path))
                                      else None)
                                 | [] \<Rightarrow> None)
                           else None)
               | [] \<Rightarrow> None))"

definition cygwin_path_match :: "string \<Rightarrow> (string \<times> string) option" where
  "cygwin_path_match line =
     (if startswith line ''/cygdrive/'' then drive_and_path (drop 10 line) else None)"

definition msys2_path_match :: "string \<Rightarrow> (string \<times> string) option" where
  "msys2_path_match line =
     (if startswith line ''/'' then drive_and_path (drop 1 line) else None)"

definition env_path_line :: "'w host \<Rightarrow> 'w \<Rightarrow> string \<Rightarrow> string list" where
  "env_path_line h w line0 =
     (let line = py_replace (strip line0) [CHR 0x5C] ''/''
      in case win_path_match line of
           None \<Rightarrow> []
         | Some (drive0, path) \<Rightarrow>
             (let drive = lower drive0;
                  line' = (if is_cygwin_env h w then ''/cygdrive/'' @ drive @ ''/'' @ path
                           else if is_msys2_env h w then ''/'' @ drive @ ''/'' @ path
                           else line)
              in [removesuffix (py_replace line' ''//'' ''/'') ''/'']))"

definition env_path :: "'w host \<Rightarrow> 'w proc \<Rightarrow> 'w proc outcome" where
  "env_path h s =
     (if is_windows h
      then Return (Some Ok)
             (s\<lparr>current_output :=
                  join ''\<newline>'' (concat (map (env_path_line h (world s))
                                           (splitlines (current_output s))))\<rparr>)
      else Return (Some Ok) s)"

definition platform_path_line :: "'w host \<Rightarrow> 'w \<Rightarrow> string \<Rightarrow> string" where
  "platform_path_line h w line0 =
     (let line = py_replace (strip line0) [CHR 0x5C] ''/''
      in if is_cygwin_env h w then
           (case cygwin_path_match line of
              None \<Rightarrow> line
            | Some (drive, path) \<Rightarrow> lower drive @ '':/'' @ path)
         else if is_msys2_env h w then
           (case msys2_path_match line of
              None \<Rightarrow> line
            | Some (drive, path) \<Rightarrow> lower drive @ '':/'' @ path)
         else line)"

definition platform_path :: "'w host \<Rightarrow> 'w proc \<Rightarrow> 'w proc outcome" where
  "platform_path h s =
     (if is_windows h
      then Return (Some Ok)
             (s\<lparr>current_output :=
                  join ''\<newline>'' (map (platform_path_line h (world s))
                                      (splitlines (current_output s)))\<rparr>)
      else Return (Some Ok) s)"

definition shell_list :: "'w host \<Rightarrow> 'w proc \<Rightarrow> 'w proc outcome" where
  "shell_list h s =
     (let ls = splitlines (current_output s)
      in if os_name h = ''nt'' \<and> \<not> is_cygwin_env h (world s)
         then Return (Some Ok) (s\<lparr>current_output := join '';'' ls\<rparr>)
         else Return (Some Ok) (s\<lparr>current_output := join '':'' ls\<rparr>))"

definition dirname :: "'w host \<Rightarrow> 'w proc \<Rightarrow> 'w proc outcome" where
  "dirname h s =
     Return (Some Ok)
       (s\<lparr>current_output :=
            join ''\<newline>'' (map (\<lambda>line. path_dirname h (strip line))
                                (splitlines (current_output s)))\<rparr>)"

definition basename :: "'w host \<Rightarrow> 'w proc \<Rightarrow> 'w proc outcome" where
  "basename h s =
     Return (Some Ok)
       (s\<lparr>current_output :=
            join ''\<newline>'' (map (\<lambda>line. path_basename h (strip line))
                                (splitlines (current_output s)))\<rparr>)"


subsection \<open>File system commands\<close>

definition touch :: "'w host \<Rightarrow> string \<Rightarrow> 'w proc \<Rightarrow> 'w proc outcome" where
  "touch h path s =
     (case touch_path h (world s) path of
        (Some e, w) \<Rightarrow> if e = OSError then Return (Some IOError) (s\<lparr>world := w\<rparr>)
                       else Raise e (s\<lparr>world := w\<rparr>)
      | (None, w) \<Rightarrow> Return (Some Ok) (s\<lparr>world := w\<rparr>))"

definition finish :: "py_exception option \<times> 'w \<Rightarrow> 'w proc \<Rightarrow> 'w proc outcome" where
  "finish r s =
     (case r of (Some e, w) \<Rightarrow> Raise e (s\<lparr>world := w\<rparr>)
              | (None, w) \<Rightarrow> Return (Some Ok) (s\<lparr>world := w\<rparr>))"

definition symlink :: "'w host \<Rightarrow> string \<Rightarrow> string \<Rightarrow> 'w proc \<Rightarrow> 'w proc outcome" where
  "symlink h target link_name s =
     (case os_symlink h (world s) target link_name of
        (None, w) \<Rightarrow> Return (Some Ok) (s\<lparr>world := w\<rparr>)
      | (Some e, w) \<Rightarrow>
          if e = OSError \<or> e = AttributeError then
            (if path_isdir h w target then
               (if path_exists h w link_name then
                  (case rmtree h w link_name of
                     (Some e', w') \<Rightarrow> Raise e' (s\<lparr>world := w'\<rparr>)
                   | (None, w') \<Rightarrow> finish (copytree h w' target link_name) s)
                else finish (copytree h w target link_name) s)
             else finish (copy2 h w target link_name) s)
          else Raise e (s\<lparr>world := w\<rparr>))"

definition ensure_dir_explicit :: "'w host \<Rightarrow> string \<Rightarrow> 'w proc \<Rightarrow> 'w proc outcome" where
  "ensure_dir_explicit h path s =
     (case makedirs h (world s) path of
        (Some e, w) \<Rightarrow> if e = OSError then Return (Some IOError) (s\<lparr>world := w\<rparr>)
                       else Raise e (s\<lparr>world := w\<rparr>)
      | (None, w) \<Rightarrow> Return (Some Ok) (s\<lparr>world := w\<rparr>))"

text \<open>\<open>ensure_dirs\<close>: \<open>return CommandResults.Ok\<close> stands inside the \<open>if\<close> of the loop
  body, and nothing is returned after the loop.\<close>

fun ensure_dirs_loop :: "'w host \<Rightarrow> string list \<Rightarrow> 'w proc \<Rightarrow> 'w proc outcome" where
  "ensure_dirs_loop h [] s = Return None s"
| "ensure_dirs_loop h (line # ls) s =
     (let path = strip line
      in if path \<noteq> [] \<and> \<not> path_exists h (world s) path then
           (case makedirs h (world s) path of
              (Some e, w) \<Rightarrow> if e = OSError then Return (Some IOError) (s\<lparr>world := w\<rparr>)
                             else Raise e (s\<lparr>world := w\<rparr>)
            | (None, w) \<Rightarrow> Return (Some Ok) (s\<lparr>world := w\<rparr>))
         else ensure_dirs_loop h ls s)"

definition ensure_dirs :: "'w host \<Rightarrow> string \<Rightarrow> 'w proc \<Rightarrow> 'w proc outcome" where
  "ensure_dirs h path s = ensure_dirs_loop h (splitlines (current_output s)) s"

fun glob_loop :: "'w host \<Rightarrow> string list \<Rightarrow> string list \<Rightarrow> 'w proc \<Rightarrow> 'w proc outcome" where
  "glob_loop h [] new_lines s = Return (Some Ok) (s\<lparr>current_output := join ''\<newline>'' new_lines\<rparr>)"
| "glob_loop h (line # ls) new_lines s =
     (let results = glob h (world s) line
      in if length results > 0 then glob_loop h ls (new_lines @ results) s
         else if stop_on_error s then Return (Some CommandNotFoundError) s
         else glob_loop h ls new_lines s)"

definition glob_lines :: "'w host \<Rightarrow> 'w proc \<Rightarrow> 'w proc outcome" where
  "glob_lines h s = glob_loop h (splitlines (current_output s)) [] s"

definition exists_cmd :: "'w host \<Rightarrow> 'w proc \<Rightarrow> 'w proc outcome" where
  "exists_cmd h s =
     Return (Some Ok)
       (s\<lparr>current_output :=
            join ''\<newline>''
              (map (\<lambda>line. ''true'')
                 (filter (\<lambda>line. length (glob h (world s) (strip line)) > 0)
                    (splitlines (current_output s))))\<rparr>)"

datatype check_func = CheckExists | CheckIsdir | CheckIsfile | CheckIslink

fun valid_flags :: "string list \<Rightarrow> check_func \<Rightarrow> check_func option" where
  "valid_flags [] cf = Some cf"
| "valid_flags (flag # fs) cf =
     (if flag = ''all'' then valid_flags fs cf
      else if flag = ''dir'' then valid_flags fs CheckIsdir
      else if flag = ''file'' then valid_flags fs CheckIsfile
      else if flag = ''symlink'' then valid_flags fs CheckIslink
      else None)"

definition run_check :: "'w host \<Rightarrow> check_func \<Rightarrow> 'w \<Rightarrow> string \<Rightarrow> bool" where
  "run_check h cf w path =
     (case cf of
        CheckExists \<Rightarrow> path_exists h w path
      | CheckIsdir \<Rightarrow> path_isdir h w path
      | CheckIsfile \<Rightarrow> path_isfile h w path
      | CheckIslink \<Rightarrow> path_islink h w path)"

definition print_valid :: "'w host \<Rightarrow> string \<Rightarrow> 'w proc \<Rightarrow> 'w proc outcome" where
  "print_valid h flags s =
     (case valid_flags (py_split flags (CHR '','')) CheckExists of
        None \<Rightarrow> Return (Some InvalidFilterFlag) s
      | Some cf \<Rightarrow>
          Return (Some Ok)
            (s\<lparr>current_output :=
                 join ''\<newline>'' (filter (\<lambda>line. run_check h cf (world s) (strip line))
                                       (splitlines (current_output s)))\<rparr>))"

section \<open>The registry\<close>

text \<open>How \<open>command.func(self, *args)\<close> binds the parameters; a call that does not fit the
  signature of the handler raises a \<open>TypeError\<close>.\<close>

definition call0 :: "('w proc \<Rightarrow> 'w proc outcome) \<Rightarrow> pyval list \<Rightarrow> 'w proc \<Rightarrow> 'w proc outcome" where
  "call0 f ps s = (case ps of [] \<Rightarrow> f s | _ \<Rightarrow> Raise TypeError s)"

definition call1 ::
  "(string \<Rightarrow> 'w proc \<Rightarrow> 'w proc outcome) \<Rightarrow> pyval list \<Rightarrow> 'w proc \<Rightarrow> 'w proc outcome" where
  "call1 f ps s = (case ps of [PyStr a] \<Rightarrow> f a s | _ \<Rightarrow> Raise TypeError s)"

definition call2 ::
  "(string \<Rightarrow> string \<Rightarrow> 'w proc \<Rightarrow> 'w proc outcome) \<Rightarrow> pyval list \<Rightarrow> 'w proc \<Rightarrow> 'w proc outcome" where
  "call2 f ps s = (case ps of [PyStr a, PyStr b] \<Rightarrow> f a b s | _ \<Rightarrow> Raise TypeError s)"

definition call2i ::
  "(int \<Rightarrow> int \<Rightarrow> 'w proc \<Rightarrow> 'w proc outcome) \<Rightarrow> pyval list \<Rightarrow> 'w proc \<Rightarrow> 'w proc outcome" where
  "call2i f ps s = (case ps of [PyInt a, PyInt b] \<Rightarrow> f a b s | _ \<Rightarrow> Raise TypeError s)"

fun strings_of :: "pyval list \<Rightarrow> string list option" where
  "strings_of [] = Some []"
| "strings_of (PyStr a # ps) = map_option ((#) a) (strings_of ps)"
| "strings_of (PyInt i # ps) = None"

definition call_star ::
  "(string \<Rightarrow> string list \<Rightarrow> 'w proc \<Rightarrow> 'w proc outcome) \<Rightarrow> pyval list \<Rightarrow> 'w proc \<Rightarrow> 'w proc outcome" where
  "call_star f ps s =
     (case strings_of ps of Some (command # args) \<Rightarrow> f command args s | _ \<Rightarrow> Raise TypeError s)"

text \<open>\<open>param_convert=lambda x: int(x)\<close>.\<close>

definition convert_int :: "string \<Rightarrow> py_exception + pyval" where
  "convert_int x = (case py_int x of None \<Rightarrow> Inl ValueError | Some n \<Rightarrow> Inr (PyInt n))"

text \<open>
  The commands in the order in which \<open>parse_commands\<close> meets them in the dictionary of
  the class: that of the first definition of each method name.
\<close>

definition registry :: "'w host \<Rightarrow> 'w Command list" where
  "registry h =
   [ Command_init ''--env'' None (Some [''KEY=VALUE'']) (- 1) None None (call1 set_env),
     Command_init ''--stdout'' None (Some [''MODE|PATH'']) (- 1) None None (call1 set_stdout),
     Command_init ''--stderr'' None (Some [''MODE|PATH'']) (- 1) None None (call1 set_stderr),
     Command_init ''--stoponerror'' None (Some [''MODE'']) (- 1) None None (call1 set_exit),
     Command_init ''--help'' (Some ''-h'') None (- 1) None None (call0 print_help),
     Command_init ''--platform-exec'' None None (- 1) None None (call0 (platform_exec h)),
     Command_init ''--platform-open'' None None (- 1) None None (call0 (platform_open h)),
     Command_init ''--exec'' (Some ''-e'') (Some [''COMMAND'', ''ARGS...'']) (- 1) (Some '';'') None
       (call_star (run_command h)),
     Command_init ''--in'' (Some ''-i'') (Some [''STR'']) (- 1) None None (call1 append_input),
     Command_init ''--read'' (Some ''-r'') (Some [''PATH'']) (- 1) None None (call1 (read_file h)),
     Command_init ''--platform'' (Some ''-p'') None (- 1) None None (call0 (platform h)),
     Command_init ''--cygwin'' (Some ''-c'') None (- 1) None None (call0 (cygwin_version h)),
     Command_init ''--mingw'' (Some ''-m'') None (- 1) None None (call0 (mingw_version h)),
     Command_init ''--timestamp'' None None (- 1) None None (call0 (timestamp h)),
     Command_init ''--out'' (Some ''-o'') (Some [''PATH'']) (- 1) None None (call1 (write_file h)),
     Command_init ''--append'' (Some ''-a'') (Some [''PATH'']) (- 1) None None (call1 (append_file h)),
     Command_init ''--print'' None None (- 1) None None (call0 print_output),
     Command_init ''--foreach'' None (Some [''COMMAND'', ''ARGS...'']) (- 1) (Some '';'') None
       (call_star (for_each_line h)),
     Command_init ''--include'' None (Some [''FROM'', ''TO'']) (- 1) None (Some convert_int)
       (call2i lines),
     Command_init ''--exclude'' None (Some [''FROM'', ''TO'']) (- 1) None (Some convert_int)
       (call2i remove_lines),
     Command_init ''--lower'' (Some ''-l'') None (- 1) None None (call0 to_lower),
     Command_init ''--upper'' (Some ''-u'') None (- 1) None None (call0 (to_upper h)),
     Command_init ''--filter'' (Some ''-f'') (Some [''REGEX'']) (- 1) None None (call1 (filter_lines h)),
     Command_init ''--filter-out'' None (Some [''REGEX'']) (- 1) None None
       (call1 (remove_lines_regex h)),
     Command_init ''--noempty'' None None (- 1) None None (call0 remove_empty_lines),
     Command_init ''--sub'' (Some ''-s'') (Some [''REGEX'', ''SUB'']) 2 None None
       (call2 (regex_replace h)),
     Command_init ''--sort'' None (Some [''FLAGS'']) (- 1) None None (call1 (sort_lines h)),
     Command_init ''--unique'' None None (- 1) None None (call0 unique),
     Command_init ''--reverse'' None None (- 1) None None (call0 reverse_lines),
     Command_init ''--first'' None None (- 1) None None (call0 first_line),
     Command_init ''--last'' None None (- 1) None None (call0 last_line),
     Command_init ''--sum'' None (Some [''FLAGS'']) (- 1) None None (call1 (sum_lines h)),
     Command_init ''--count'' None None (- 1) None None (call0 count_lines),
     Command_init ''--env-path'' None None (- 1) None None (call0 (env_path h)),
     Command_init ''--platform-path'' None None (- 1) None None (call0 (platform_path h)),
     Command_init ''--shell-list'' None None (- 1) None None (call0 (shell_list h)),
     Command_init ''--dirname'' None None (- 1) None None (call0 (dirname h)),
     Command_init ''--basename'' None None (- 1) None None (call0 (basename h)),
     Command_init ''--touch'' None (Some [''PATH'']) (- 1) None None (call1 (touch h)),
     Command_init ''--symlink'' None (Some [''TARGET'', ''LINK'']) (- 1) None None (call2 (symlink h)),
     Command_init ''--ensure-dir'' None (Some [''PATH'']) (- 1) None None
       (call1 (ensure_dir_explicit h)),
     Command_init ''--ensure-dirs'' None (Some [''PATH'']) (- 1) None None (call1 (ensure_dirs h)),
     Command_init ''--glob'' None None (- 1) None None (call0 (glob_lines h)),
     Command_init ''--exists'' None None (- 1) None None (call0 (exists_cmd h)),
     Command_init ''--print-valid'' None (Some [''FLAGS'']) (- 1) None None (call1 (print_valid h)) ]"

text \<open>\<open>CommandProcessor.__init__\<close>: the arguments after the program name, and the
  initial processor.\<close>

definition CommandProcessor_init ::
  "string list \<Rightarrow> string \<Rightarrow> (string \<times> string) list \<Rightarrow> 'w \<Rightarrow> string list \<times> 'w proc" where
  "CommandProcessor_init argv cwd environment w =
     (drop 1 argv,
      \<lparr> working_dir = cwd, env = environment, current_output = [],
        stdout_mode = ''process'', stdout_path = None,
        stderr_mode = ''print'', stderr_path = None,
        stop_on_error = True, world = w \<rparr>)"


section \<open>Notions used in the properties\<close>

text \<open>
  When \<open>parse_command\<close> takes the head token \<open>arg\<close> for a command: the token is the long
  flag, or the long flag followed by \<open>=\<close> and a value, or it does not start with the long
  flag and is the short flag. \<open>args_after_flag\<close> is the argument list it then leaves: the
  value, if there is one, has become the head.
\<close>

definition flag_matches :: "string \<Rightarrow> string option \<Rightarrow> string \<Rightarrow> bool" where
  "flag_matches long short arg \<longleftrightarrow>
     (if startswith arg long
      then startswith (removeprefix arg long) ''='' \<or> removeprefix arg long = []
      else Some arg = short)"

definition args_after_flag :: "string \<Rightarrow> string \<Rightarrow> string list \<Rightarrow> string list" where
  "args_after_flag long arg rest =
     (if startswith arg long \<and> startswith (removeprefix arg long) ''=''
      then removeprefix (removeprefix arg long) ''='' # rest
      else rest)"

text \<open>The first command of the registry that takes the token.\<close>

definition first_match :: "'w Command list \<Rightarrow> string \<Rightarrow> 'w Command option" where
  "first_match reg arg = find (\<lambda>c. flag_matches (arg_long c) (arg_short c) arg) reg"

text \<open>Path separators, two elements in a row that satisfy a predicate, and a path with
  its backslashes turned into slashes.\<close>

definition is_sep :: "char \<Rightarrow> bool" where
  "is_sep c \<longleftrightarrow> c = CHR 0x5C \<or> c = CHR ''/''"

fun adjacent :: "('a \<Rightarrow> bool) \<Rightarrow> 'a list \<Rightarrow> bool" where
  "adjacent P (a # b # r) = ((P a \<and> P b) \<or> adjacent P (b # r))"
| "adjacent P r = False"

definition to_slashes :: "string \<Rightarrow> string" where
  "to_slashes p = py_replace p [CHR 0x5C] ''/''"

section \<open>A host for examples\<close>

text \<open>
  A Windows host with Cygwin, on which the model is evaluated at concrete inputs. Its world
  is the list of the paths that exist; no file can be read, no child process starts, a
  pattern is plain text that must not be \<open>(\<close>, and \<open>float\<close> reads integers and \<open>nan\<close>.
\<close>

fun contains :: "string \<Rightarrow> string \<Rightarrow> bool" where
  "contains pat [] = (pat = [])"
| "contains pat (c # cs) = (startswith (c # cs) pat \<or> contains pat cs)"

definition example_host :: "(string list) host" where
  "example_host =
     \<lparr> os_name = ''nt'',
       sys_platform = ''win32'',
       environ = [],
       path_exists = (\<lambda>w p. p \<in> set w),
       path_isdir = (\<lambda>w p. p \<in> set w),
       path_isfile = (\<lambda>w p. False),
       path_islink = (\<lambda>w p. False),
       path_dirname = (\<lambda>p. []),
       path_basename = (\<lambda>p. p),
       glob = (\<lambda>w p. filter (\<lambda>q. q = p) w),
       open_read = (\<lambda>w p. Inl OSError),
       write_text = (\<lambda>w p a t. (Some OSError, w)),
       makedirs = (\<lambda>w p. (None, w @ [p])),
       touch_path = (\<lambda>w p. (Some OSError, w)),
       os_symlink = (\<lambda>w t l. (Some OSError, w)),
       rmtree = (\<lambda>w p. (Some OSError, w)),
       copytree = (\<lambda>w t l. (Some OSError, w)),
       copy2 = (\<lambda>w t l. (Some OSError, w)),
       exec_cmd = (\<lambda>s c a. (Inr (CommandNotFoundError, []), world s)),
       cygcheck_version = (\<lambda>w. None),
       mingw_get_version = (\<lambda>w. None),
       now_timestamp = (\<lambda>w. 0),
       re_compile = (\<lambda>p. if p = ''('' then Some ReError else None),
       re_search = contains,
       re_search_value = (\<lambda>p l. if contains p l then NoGroup else NoMatch_value),
       re_sub = (\<lambda>p r l. Inr l),
       py_float = (\<lambda>v. if lower (strip v) = ''nan'' then Some NaN
                        else map_option (\<lambda>n. Fin (of_int n)) (py_int v)),
       sorted_long = (\<lambda>ps. ps),
       str_upper = (\<lambda>v. v),
       format_sum = (\<lambda>f vs. Inl ValueError) \<rparr>"

definition example_proc :: "string \<Rightarrow> (string list) proc" where
  "example_proc buffer =
     (snd (CommandProcessor_init [''make_platform_utils.py''] ''/'' [] [''/cygdrive'']))
       \<lparr>current_output := buffer\<rparr>"


section \<open>Properties of the handlers\<close>

subsection \<open>Unique\<close>

lemma unique_raises:
  "splitlines (current_output s) \<noteq> [] \<Longrightarrow> unique s = Raise IndexError s"
  by (cases "splitlines (current_output s)") (simp_all add: unique_def py_index_def)

lemma unique_empty:
  "splitlines (current_output s) = [] \<Longrightarrow>
   unique s = Return (Some Ok) (s\<lparr>current_output := []\<rparr>)"
  by (simp add: unique_def)

lemma splitlines_aaba:
  "splitlines ''a\<newline>a\<newline>b\<newline>a'' = [''a'', ''a'', ''b'', ''a'']"
  by (simp add: splitlines_def is_linebreak_def)

text \<open>
  C7. \<open>--unique\<close> is meant to drop a line that equals the line kept before it, so that the
  lines a, a, b, a become a, b, a with status \<open>Ok\<close>. The handler does not: on the buffer
  with these four lines it reads the last element of the still empty list \<open>unique_lines\<close>
  and raises an \<open>IndexError\<close>; the buffer stays as it was and no status is returned. By
  \<open>unique_raises\<close> the same happens on every buffer that has a line.
\<close>

theorem unique_fails_on_example:
  "unique (example_proc ''a\<newline>a\<newline>b\<newline>a'') =
     Raise IndexError (example_proc ''a\<newline>a\<newline>b\<newline>a'')"
  by (rule unique_raises) (simp add: example_proc_def splitlines_aaba)

subsection \<open>Read\<close>

text \<open>
  C10. \<open>--read\<close> on a buffer that is not empty appends the newline separator before it
  opens the file. When opening fails with an \<open>OSError\<close>, the handler returns \<open>IOError\<close>
  if \<open>stop_on_error\<close> is set and \<open>Ok\<close> if it is not, and in both cases the buffer it
  leaves is the old buffer with the newline appended.
\<close>

theorem read_separator_before_open:
  assumes "current_output s \<noteq> []" and "open_read h (world s) path = Inl OSError"
  shows "read_file h path s =
           Return (Some (if stop_on_error s then IOError else Ok))
             (s\<lparr>current_output := current_output s @ ''\<newline>''\<rparr>)"
  using assms by (simp add: read_file_def with_separator_def Let_def)

theorem read_separator_before_open_witness:
  "current_output (example_proc ''x'') \<noteq> [] \<and>
   open_read example_host (world (example_proc ''x'')) ''f'' = Inl OSError \<and>
   read_file example_host ''f'' (example_proc ''x'') =
     Return (Some IOError) ((example_proc ''x'')\<lparr>current_output := ''x\<newline>''\<rparr>) \<and>
   read_file example_host ''f'' ((example_proc ''x'')\<lparr>stop_on_error := False\<rparr>) =
     Return (Some Ok)
       ((example_proc ''x'')\<lparr>stop_on_error := False, current_output := ''x\<newline>''\<rparr>)"
proof -
  have b: "current_output (example_proc ''x'') \<noteq> []"
    by (simp add: example_proc_def)
  have o: "open_read example_host w ''f'' = Inl OSError" for w
    by (simp add: example_host_def)
  have 1: "read_file example_host ''f'' (example_proc ''x'') =
     Return (Some IOError) ((example_proc ''x'')\<lparr>current_output := ''x\<newline>''\<rparr>)"
    using read_separator_before_open [OF b o]
    by (simp add: example_proc_def CommandProcessor_init_def)
  have 2: "read_file example_host ''f'' ((example_proc ''x'')\<lparr>stop_on_error := False\<rparr>) =
     Return (Some Ok)
       ((example_proc ''x'')\<lparr>stop_on_error := False, current_output := ''x\<newline>''\<rparr>)"
    using read_separator_before_open
      [of "(example_proc ''x'')\<lparr>stop_on_error := False\<rparr>" example_host "''f''"] b o
    by (simp add: example_proc_def CommandProcessor_init_def)
  from b o 1 2 show ?thesis by simp
qed

subsection \<open>Ensure directories\<close>

lemma ensure_dirs_loop_find:
  "ensure_dirs_loop h ls s =
     (case find (\<lambda>line. strip line \<noteq> [] \<and> \<not> path_exists h (world s) (strip line)) ls of
        None \<Rightarrow> Return None s
      | Some line \<Rightarrow>
          (case makedirs h (world s) (strip line) of
             (None, w) \<Rightarrow> Return (Some Ok) (s\<lparr>world := w\<rparr>)
           | (Some e, w) \<Rightarrow> if e = OSError then Return (Some IOError) (s\<lparr>world := w\<rparr>)
                            else Raise e (s\<lparr>world := w\<rparr>)))"
  by (induction ls) (auto simp: Let_def split: option.splits prod.splits)

text \<open>
  C9. \<open>--ensure-dirs\<close> calls \<open>makedirs\<close> at most once: for the first line whose stripped
  text is not empty and does not exist. If the call succeeds the handler returns \<open>Ok\<close> at
  once, and the later lines are not looked at (an \<open>OSError\<close> of the call gives \<open>IOError\<close>).
  If every line is blank or exists, nothing is created and the handler returns Python's
  \<open>None\<close>, which is no status code.
\<close>

theorem ensure_dirs_at_most_one:
  "ensure_dirs h path s =
     (case find (\<lambda>line. strip line \<noteq> [] \<and> \<not> path_exists h (world s) (strip line))
             (splitlines (current_output s)) of
        None \<Rightarrow> Return None s
      | Some line \<Rightarrow>
          (case makedirs h (world s) (strip line) of
             (None, w) \<Rightarrow> Return (Some Ok) (s\<lparr>world := w\<rparr>)
           | (Some e, w) \<Rightarrow> if e = OSError then Return (Some IOError) (s\<lparr>world := w\<rparr>)
                            else Raise e (s\<lparr>world := w\<rparr>)))"
  by (simp add: ensure_dirs_def ensure_dirs_loop_find)

theorem ensure_dirs_at_most_one_witness:
  "ensure_dirs example_host ''p'' (example_proc '' \<newline>/cygdrive\<newline>new1\<newline>new2'') =
     Return (Some Ok)
       ((example_proc '' \<newline>/cygdrive\<newline>new1\<newline>new2'')\<lparr>world := [''/cygdrive'', ''new1'']\<rparr>) \<and>
   ensure_dirs example_host ''p'' (example_proc ''/cygdrive'') =
     Return None (example_proc ''/cygdrive'')"
  by (simp add: ensure_dirs_at_most_one example_proc_def CommandProcessor_init_def
      splitlines_def is_linebreak_def strip_def py_isspace_def example_host_def)


subsection \<open>Path translation\<close>

lemma replace_char_map:
  "replace_nonempty [a] [b] s = map (\<lambda>c. if c = a then b else c) s"
proof (induction s)
  case Nil
  show ?case by (simp add: replace_nonempty.simps [of _ _ "[]"])
next
  case (Cons c cs)
  then show ?case
    by (simp add: replace_nonempty.simps [of "[a]" "[b]" "c # cs"] startswith_def)
qed

lemma py_replace_char: "py_replace s [a] [b] = map (\<lambda>c. if c = a then b else c) s"
  by (simp add: py_replace_def replace_char_map)

lemma splitlines_from_plain:
  "list_all (\<lambda>c. \<not> is_linebreak c) s \<Longrightarrow> cur @ s \<noteq> [] \<Longrightarrow> splitlines_from cur s = [cur @ s]"
proof (induction cur s rule: splitlines_from.induct)
  case (1 cur)
  then show ?case by simp
next
  case (2 cur c)
  then show ?case by simp
next
  case (3 cur c d cs)
  then have "\<not> is_linebreak c" by simp
  moreover have "c \<noteq> CHR 0x0D" using \<open>\<not> is_linebreak c\<close> by (auto simp: is_linebreak_def)
  ultimately show ?case using 3 by simp
qed

lemma splitlines_plain:
  "list_all (\<lambda>c. \<not> is_linebreak c) s \<Longrightarrow> s \<noteq> [] \<Longrightarrow> splitlines s = [s]"
  using splitlines_from_plain [of s "[]"] by (simp add: splitlines_def)

lemma strip_plain:
  assumes "s \<noteq> []" "\<not> py_isspace (hd s)" "\<not> py_isspace (last s)"
  shows "strip s = s"
proof -
  from assms have 1: "dropWhile py_isspace s = s" by (cases s) auto
  from assms have "rev s \<noteq> []" "\<not> py_isspace (hd (rev s))" by (simp_all add: hd_rev)
  then have "dropWhile py_isspace (rev s) = rev s" by (cases "rev s") auto
  with 1 show ?thesis by (simp add: strip_def)
qed

lemma replace_no_occurrence:
  "\<not> contains old s \<Longrightarrow> replace_nonempty old new s = s"
proof (induction s)
  case Nil
  show ?case by (simp add: replace_nonempty.simps [of _ _ "[]"])
next
  case (Cons c cs)
  then show ?case
    by (simp add: replace_nonempty.simps [of old new "c # cs"])
qed

lemma contains_slashes: "contains ''//'' s = adjacent (\<lambda>c. c = CHR ''/'') s"
proof (induction s)
  case Nil
  show ?case by simp
next
  case (Cons c cs)
  then show ?case by (cases cs) (auto simp: startswith_def)
qed

lemma adjacent_map: "adjacent P (map f s) = adjacent (\<lambda>c. P (f c)) s"
proof (induction s)
  case Nil
  show ?case by simp
next
  case (Cons c cs)
  then show ?case by (cases cs) auto
qed

lemma adjacent_append:
  "adjacent P (a @ b) \<longleftrightarrow>
     adjacent P a \<or> adjacent P b \<or> (a \<noteq> [] \<and> b \<noteq> [] \<and> P (last a) \<and> P (hd b))"
proof (induction a)
  case Nil
  show ?case by simp
next
  case (Cons c cs)
  show ?case
  proof (cases cs)
    case Nil
    then show ?thesis by (cases b) auto
  next
    case (Cons d ds)
    with Cons.IH show ?thesis by auto
  qed
qed

lemma letter_facts:
  assumes "is_letter c"
  shows "\<not> is_linebreak c" "\<not> py_isspace c" "c \<noteq> CHR ''/''" "c \<noteq> CHR 0x5C" "c \<noteq> CHR '':''"
    "c \<noteq> CHR 0x0A"
  using assms by (auto simp: is_letter_def is_linebreak_def py_isspace_def Let_def)

lemma lower_letter: "is_letter c \<Longrightarrow> is_letter (lower_char c)"
  by (auto simp: is_letter_def lower_char_def Let_def)

lemma lower_lower: "lower_char (lower_char c) = lower_char c"
  by (auto simp: lower_char_def Let_def)


lemma to_slashes_map: "to_slashes p = map (\<lambda>c. if c = CHR 0x5C then CHR ''/'' else c) p"
  by (simp add: to_slashes_def py_replace_char)

lemma rest_of_line_plain: "CHR 0x0A \<notin> set q \<Longrightarrow> rest_of_line q = Some q"
proof -
  assume a: "CHR 0x0A \<notin> set q"
  then have "takeWhile (\<lambda>c. c \<noteq> CHR 0x0A) q = q" by (auto simp: takeWhile_eq_all_conv)
  moreover from a have "dropWhile (\<lambda>c. c \<noteq> CHR 0x0A) q = []" by (auto simp: dropWhile_eq_Nil_conv)
  ultimately show ?thesis by (simp add: rest_of_line_def)
qed

lemma takeWhile_letters:
  "list_all is_letter d \<Longrightarrow> \<not> is_letter c \<Longrightarrow> takeWhile is_letter (d @ c # r) = d"
  by (induction d) auto

lemma dropWhile_letters:
  "list_all is_letter d \<Longrightarrow> \<not> is_letter c \<Longrightarrow> dropWhile is_letter (d @ c # r) = c # r"
  by (induction d) auto

lemma not_letter: "\<not> is_letter (CHR '':'')" "\<not> is_letter (CHR ''/'')"
  by (simp_all add: is_letter_def)

lemma win_path_match_drive:
  assumes "d \<noteq> []" "list_all is_letter d" "CHR 0x0A \<notin> set q"
  shows "win_path_match (d @ '':/'' @ q) = Some (d, q)"
  using assms
  by (simp add: win_path_match_def takeWhile_letters dropWhile_letters not_letter rest_of_line_plain)

lemma drive_and_path_drive:
  assumes "d \<noteq> []" "list_all is_letter d" "CHR 0x0A \<notin> set q"
  shows "drive_and_path (d @ ''/'' @ q) = Some (d, q)"
  using assms
  by (simp add: drive_and_path_def takeWhile_letters dropWhile_letters not_letter rest_of_line_plain)

lemma cygwin_path_match_drive:
  assumes "d \<noteq> []" "list_all is_letter d" "CHR 0x0A \<notin> set q"
  shows "cygwin_path_match (''/cygdrive/'' @ d @ ''/'' @ q) = Some (d, q)"
  using drive_and_path_drive [OF assms]
  by (simp add: cygwin_path_match_def startswith_def)


lemma endswith_last: "endswith s [c] \<longleftrightarrow> s \<noteq> [] \<and> last s = c"
proof (cases s rule: rev_cases)
  case Nil
  then show ?thesis by (simp add: endswith_def)
next
  case (snoc ys y)
  then show ?thesis by (auto simp: endswith_def)
qed

lemma removesuffix_plain: "s \<noteq> [] \<Longrightarrow> last s \<noteq> c \<Longrightarrow> removesuffix s [c] = s"
  by (simp add: removesuffix_def endswith_last)

lemma replace_slashes_plain:
  "\<not> adjacent (\<lambda>c. c = CHR ''/'') s \<Longrightarrow> py_replace s ''//'' ''/'' = s"
  by (simp add: py_replace_def replace_no_occurrence contains_slashes)

lemma lower_letters: "list_all is_letter d \<Longrightarrow> list_all is_letter (lower d)"
  by (induction d) (auto simp: lower_def lower_letter)

lemma lower_idem: "lower (lower d) = lower d"
  by (simp add: lower_def lower_lower)

lemma letters_no_adjacent: "list_all is_letter d \<Longrightarrow> \<not> adjacent (\<lambda>c. c = CHR ''/'') d"
proof (induction d)
  case Nil
  show ?case by simp
next
  case (Cons c cs)
  then show ?case by (cases cs) (auto simp: letter_facts)
qed

lemma adjacent_Cons: "adjacent P (a # r) \<longleftrightarrow> (r \<noteq> [] \<and> P a \<and> P (hd r)) \<or> adjacent P r"
  by (cases r) auto

lemma py_replace_absent: "a \<notin> set s \<Longrightarrow> py_replace s [a] [b] = s"
  by (induction s) (auto simp: py_replace_char)

text \<open>
  C6, as amended. On a Windows host with Cygwin, let the buffer be a drive-letter path:
  letters, a colon, a backslash or slash, and a rest that is not empty, has no line break,
  does not end in white space, does not begin or end with a separator and has no two
  separators in a row. Then \<open>--env-path\<close> makes it \<open>/cygdrive/\<close>, the drive in lower case,
  a slash and the rest with its backslashes turned into slashes; and \<open>--platform-path\<close>
  makes of that the drive in lower case, \<open>:/\<close> and the same rest. The path that comes
  back has a lower-case drive and forward slashes: it is the original only if the
  original was written that way.
\<close>

theorem env_then_platform_path_cygwin:
  assumes win: "is_windows h" and cyg: "is_cygwin_env h (world s)"
    and buf: "current_output s = drive @ '':'' @ [sep] @ p"
    and drive: "drive \<noteq> []" "list_all is_letter drive"
    and sep: "is_sep sep"
    and p: "p \<noteq> []" "list_all (\<lambda>c. \<not> is_linebreak c) p" "\<not> py_isspace (last p)"
      "\<not> is_sep (hd p)" "\<not> is_sep (last p)" "\<not> adjacent is_sep p"
  shows "env_path h s =
           Return (Some Ok) (s\<lparr>current_output := ''/cygdrive/'' @ lower drive @ ''/'' @ to_slashes p\<rparr>) \<and>
         platform_path h (s\<lparr>current_output := ''/cygdrive/'' @ lower drive @ ''/'' @ to_slashes p\<rparr>) =
           Return (Some Ok) (s\<lparr>current_output := lower drive @ '':/'' @ to_slashes p\<rparr>)"
proof -
  define q where "q = to_slashes p"
  define b where "b = drive @ '':'' @ [sep] @ p"
  define n where "n = drive @ '':/'' @ q"
  define m where "m = ''/cygdrive/'' @ lower drive @ ''/'' @ q"
  define r where "r = lower drive @ '':/'' @ q"
  have q_map: "q = map (\<lambda>c. if c = CHR 0x5C then CHR ''/'' else c) p"
    unfolding q_def by (rule to_slashes_map)
  have q_ne: "q \<noteq> []" using p(1) by (simp add: q_map)
  have q_last: "last q = last p"
    using p(1) p(5) by (simp add: q_map last_map is_sep_def)
  have q_hd: "hd q = hd p"
    using p(1) p(4) by (simp add: q_map hd_map is_sep_def)
  have q_nl: "list_all (\<lambda>c. \<not> is_linebreak c) q"
    using p(2) by (auto simp: q_map list_all_iff is_linebreak_def)
  have q_n: "CHR 0x0A \<notin> set q"
    using q_nl by (auto simp: list_all_iff is_linebreak_def)
  have q_bs: "CHR 0x5C \<notin> set q" by (auto simp: q_map)
  have q_adj: "\<not> adjacent (\<lambda>c. c = CHR ''/'') q"
  proof -
    have "(\<lambda>c. (if c = CHR 0x5C then CHR ''/'' else c) = CHR ''/'') = is_sep"
      by (auto simp: is_sep_def fun_eq_iff)
    then show ?thesis using p(6) by (simp add: q_map adjacent_map)
  qed
  have ld: "lower drive \<noteq> []" "list_all is_letter (lower drive)"
    using drive by (simp_all add: lower_letters) (simp add: lower_def)
  have d_hd: "is_letter (hd drive)"
    using drive by (cases drive) auto
  have d_nl: "list_all (\<lambda>c. \<not> is_linebreak c) drive"
    using drive(2) by (auto simp: list_all_iff letter_facts)
  have ld_nl: "list_all (\<lambda>c. \<not> is_linebreak c) (lower drive)"
    using ld(2) by (auto simp: list_all_iff letter_facts)
  have ld_bs: "CHR 0x5C \<notin> set (lower drive)"
    using ld(2) letter_facts(4) by (auto simp: list_all_iff)
  have d_bs: "CHR 0x5C \<notin> set drive"
    using drive(2) letter_facts(4) by (auto simp: list_all_iff)
  have sep_nl: "\<not> is_linebreak sep" using sep by (auto simp: is_sep_def is_linebreak_def)
  have b_lines: "splitlines b = [b]"
    unfolding b_def using drive(1) d_nl sep_nl p(2)
    by (intro splitlines_plain) (simp_all add: is_linebreak_def)
  have b_strip: "strip b = b"
    unfolding b_def using drive(1) d_hd p(1) p(3)
    by (intro strip_plain) (simp_all add: letter_facts)
  have b_slashes: "py_replace b [CHR 0x5C] ''/'' = n"
    unfolding b_def n_def
    using sep py_replace_absent [OF d_bs, of "CHR ''/''"]
    by (auto simp: py_replace_char q_map is_sep_def)
  have n_match: "win_path_match n = Some (drive, q)"
    unfolding n_def by (rule win_path_match_drive [OF drive q_n])
  have m_ne: "m \<noteq> []" by (simp add: m_def)
  have m_last: "last m = last p" using q_ne q_last by (simp add: m_def)
  have m_hd: "hd m = CHR ''/''" by (simp add: m_def)
  have m_adj: "\<not> adjacent (\<lambda>c. c = CHR ''/'') m"
  proof -
    have 1: "\<not> adjacent (\<lambda>c. c = CHR ''/'') (CHR ''/'' # q)"
      using q_adj q_hd p(4) by (simp add: adjacent_Cons is_sep_def)
    have "is_letter (last (lower drive))"
      using ld by (auto simp: list_all_iff)
    then have "last (lower drive) \<noteq> CHR ''/''" by (rule letter_facts)
    then have 2: "\<not> adjacent (\<lambda>c. c = CHR ''/'') (lower drive @ CHR ''/'' # q)"
      using 1 ld(1) letters_no_adjacent [OF ld(2)] by (simp add: adjacent_append)
    have 3: "hd (lower drive @ CHR ''/'' # q) \<noteq> CHR ''/''"
      using ld by (cases "lower drive") (auto simp: letter_facts)
    show ?thesis unfolding m_def using 2 3 by (simp add: adjacent_Cons)
  qed
  have m_replace: "py_replace m ''//'' ''/'' = m"
    by (rule replace_slashes_plain [OF m_adj])
  have m_suffix: "removesuffix m ''/'' = m"
    using m_last p(5) by (intro removesuffix_plain [OF m_ne]) (simp add: is_sep_def)
  have "env_path_line h (world s) b = [removesuffix (py_replace m ''//'' ''/'') ''/'']"
    unfolding env_path_line_def Let_def b_strip b_slashes n_match m_def using cyg by simp
  then have line1: "env_path_line h (world s) b = [m]"
    by (simp only: m_replace m_suffix)
  have buf': "current_output s = b" by (simp add: buf b_def)
  have first: "env_path h s = Return (Some Ok) (s\<lparr>current_output := m\<rparr>)"
    using win by (simp add: env_path_def buf' b_lines line1)
  have m_lines: "splitlines m = [m]"
    unfolding m_def using ld_nl q_nl by (intro splitlines_plain) (simp_all add: is_linebreak_def)
  have m_strip: "strip m = m"
    using m_ne m_hd m_last p(3) by (intro strip_plain) (simp_all add: py_isspace_def)
  have m_slashes: "py_replace m [CHR 0x5C] ''/'' = m"
    unfolding m_def using ld_bs q_bs by (intro py_replace_absent) simp
  have m_match: "cygwin_path_match m = Some (lower drive, q)"
    unfolding m_def by (rule cygwin_path_match_drive [OF ld q_n])
  have line2: "platform_path_line h (world s) m = r"
    unfolding platform_path_line_def Let_def m_strip m_slashes m_match r_def
    using cyg by (simp add: lower_idem)
  have second: "platform_path h (s\<lparr>current_output := m\<rparr>) =
      Return (Some Ok) (s\<lparr>current_output := r\<rparr>)"
    using win by (simp add: platform_path_def m_lines line2)
  from first second show ?thesis unfolding m_def r_def q_def by simp
qed

theorem env_then_platform_path_cygwin_witness:
  "env_path example_host (example_proc [CHR ''C'', CHR '':'', CHR 0x5C, CHR ''U'', CHR ''s'', CHR ''e'', CHR ''r'', CHR ''s'', CHR 0x5C, CHR ''x'']) =
     Return (Some Ok) (example_proc ''/cygdrive/c/Users/x'') \<and>
   platform_path example_host (example_proc ''/cygdrive/c/Users/x'') =
     Return (Some Ok) (example_proc ''c:/Users/x'')"
proof -
  define p where "p = [CHR ''U'', CHR ''s'', CHR ''e'', CHR ''r'', CHR ''s'', CHR 0x5C, CHR ''x'']"
  define b where "b = ''C'' @ '':'' @ [CHR 0x5C] @ p"
  have h1: "is_windows example_host"
    by (simp add: is_windows_def example_host_def)
  have h2: "is_cygwin_env example_host (world (example_proc b))"
    by (simp add: is_cygwin_env_def example_host_def example_proc_def CommandProcessor_init_def)
  have h3: "current_output (example_proc b) = ''C'' @ '':'' @ [CHR 0x5C] @ p"
    by (simp add: example_proc_def b_def)
  have h4: "''C'' \<noteq> []" "list_all is_letter ''C''" "is_sep (CHR 0x5C)"
    by (simp_all add: is_letter_def is_sep_def)
  have h5: "p \<noteq> []" "list_all (\<lambda>c. \<not> is_linebreak c) p" "\<not> py_isspace (last p)"
    "\<not> is_sep (hd p)" "\<not> is_sep (last p)" "\<not> adjacent is_sep p"
    by (simp_all add: p_def is_linebreak_def py_isspace_def is_sep_def)
  have l: "lower ''C'' = ''c''" by code_simp
  have t: "to_slashes p = ''Users/x''" unfolding p_def by code_simp
  have e: "(example_proc y)\<lparr>current_output := x\<rparr> = example_proc x" for x y
    by (simp add: example_proc_def)
  have "b = [CHR ''C'', CHR '':'', CHR 0x5C, CHR ''U'', CHR ''s'', CHR ''e'', CHR ''r'', CHR ''s'', CHR 0x5C, CHR ''x'']"
    by (simp add: b_def p_def)
  with env_then_platform_path_cygwin [OF h1 h2 h3 h4 h5] show ?thesis
    by (simp add: l t e)
qed

text \<open>
  C6 as stated fails on its own example: from the buffer \<open>C:\Users\x\<close> the two commands
  give \<open>c:/Users/x\<close>, which is neither the original nor \<open>C:/Users/x\<close>.
\<close>

theorem env_then_platform_path_counterexample:
  "result (parse_commands (registry example_host) [''--env-path'', ''--platform-path'']
      (example_proc [CHR ''C'', CHR '':'', CHR 0x5C, CHR ''U'', CHR ''s'', CHR ''e'', CHR ''r'', CHR ''s'', CHR 0x5C, CHR ''x''])) = Inr (Some Ok) \<and>
   current_output (final (parse_commands (registry example_host) [''--env-path'', ''--platform-path'']
      (example_proc [CHR ''C'', CHR '':'', CHR 0x5C, CHR ''U'', CHR ''s'', CHR ''e'', CHR ''r'', CHR ''s'', CHR 0x5C, CHR ''x'']))) = ''c:/Users/x'' \<and>
   ''c:/Users/x'' \<noteq> [CHR ''C'', CHR '':'', CHR 0x5C, CHR ''U'', CHR ''s'', CHR ''e'', CHR ''r'', CHR ''s'', CHR 0x5C, CHR ''x''] \<and>
   ''c:/Users/x'' \<noteq> ''C:/Users/x''"
  by code_simp


subsection \<open>Sort, sum and the regex commands\<close>

lemma first_error_None:
  "first_error f xs = None \<Longrightarrow> x \<in> set xs \<Longrightarrow> \<exists>v. f x = Inr v"
  by (induction xs) (auto split: sum.splits)

lemma stable_sorted_filter:
  "filter (\<lambda>y. f y = c) (stable_sorted f r xs) = filter (\<lambda>y. f y = c) xs"
proof (cases r)
  case False
  then show ?thesis by (simp add: stable_sorted_def sort_key_stable)
next
  case True
  have "filter (\<lambda>y. f y = c) (rev (sort_key f (rev xs))) =
        rev (filter (\<lambda>y. f y = c) (sort_key f (rev xs)))"
    by (simp add: rev_filter)
  also have "\<dots> = rev (filter (\<lambda>y. f y = c) (rev xs))"
    by (simp add: sort_key_stable)
  also have "\<dots> = filter (\<lambda>y. f y = c) xs"
    by (simp add: rev_filter)
  finally show ?thesis using True by (simp add: stable_sorted_def)
qed

lemma set_stable_sorted: "set (stable_sorted f r xs) = set xs"
  by (simp add: stable_sorted_def)

lemma stable_sorted_filter_pred:
  assumes "\<And>x. x \<in> set xs \<Longrightarrow> P x \<longleftrightarrow> f x = c"
  shows "filter P (stable_sorted f r xs) = filter P xs"
proof -
  have "filter P (stable_sorted f r xs) = filter (\<lambda>y. f y = c) (stable_sorted f r xs)"
    using assms by (intro filter_cong) (simp_all add: set_stable_sorted)
  also have "\<dots> = filter (\<lambda>y. f y = c) xs" by (rule stable_sorted_filter)
  also have "\<dots> = filter P xs" using assms by (intro filter_cong) simp_all
  finally show ?thesis .
qed

lemma stable_sorted_filter_none:
  assumes "\<And>x. x \<in> set xs \<Longrightarrow> \<not> P x"
  shows "filter P (stable_sorted f r xs) = filter P xs"
proof -
  have "filter P (stable_sorted f r xs) = []"
    using assms by (simp add: filter_empty_conv set_stable_sorted)
  moreover have "filter P xs = []" using assms by (simp add: filter_empty_conv)
  ultimately show ?thesis by simp
qed

lemma num_rank_inj: "num_rank x = num_rank y \<Longrightarrow> x = y"
  by (cases x; cases y) (simp_all add: num_rank_def)

lemma is_KStr_iff: "is_KStr k \<longleftrightarrow> (\<exists>v. k = Inr (KStr v))"
proof (cases k)
  case (Inl e)
  then show ?thesis by (simp add: is_KStr_def)
next
  case (Inr key)
  then show ?thesis by (cases key) (simp_all add: is_KStr_def)
qed

lemma is_KNum_iff: "is_KNum k \<longleftrightarrow> (\<exists>v. k = Inr (KNum v))"
proof (cases k)
  case (Inl e)
  then show ?thesis by (simp add: is_KNum_def)
next
  case (Inr key)
  then show ?thesis by (cases key) (simp_all add: is_KNum_def)
qed

lemma py_sorted_stable:
  assumes "py_sorted long key r xs = Inr ys"
    and nonan: "list_all (\<lambda>x. key x \<noteq> Inr (KNum NaN)) xs"
  shows "filter (\<lambda>l. key l = Inr k) ys = filter (\<lambda>l. key l = Inr k) xs"
proof (cases "length xs \<le> 1")
  case True
  with assms show ?thesis by (auto simp: py_sorted_def split: option.splits)
next
  case False
  show ?thesis
  proof (cases "list_all (\<lambda>x. is_KStr (key x)) xs")
    case True
    with assms False have ys: "ys = stable_sorted (\<lambda>x. str_of_key (key x)) r xs"
      by (auto simp: py_sorted_def split: option.splits)
    from True have strs: "\<And>x. x \<in> set xs \<Longrightarrow> \<exists>v. key x = Inr (KStr v)"
      by (simp add: list_all_iff is_KStr_iff)
    show ?thesis
    proof (cases k)
      case (KStr t)
      have "key x = Inr k \<longleftrightarrow> str_of_key (key x) = t" if "x \<in> set xs" for x
      proof -
        from strs [OF that] obtain v where "key x = Inr (KStr v)" by blast
        then show ?thesis using KStr by (simp add: str_of_key_def)
      qed
      then show ?thesis unfolding ys by (rule stable_sorted_filter_pred)
    next
      case KNone
      have "\<And>x. x \<in> set xs \<Longrightarrow> \<not> key x = Inr k" using strs KNone by fastforce
      then show ?thesis unfolding ys by (rule stable_sorted_filter_none)
    next
      case (KNum n)
      have "\<And>x. x \<in> set xs \<Longrightarrow> \<not> key x = Inr k" using strs KNum by fastforce
      then show ?thesis unfolding ys by (rule stable_sorted_filter_none)
    qed
  next
    case notstr: False
    show ?thesis
    proof (cases "list_all (\<lambda>x. is_KNum (key x)) xs")
      case True
      with assms(1) nonan False notstr
      have ys: "ys = stable_sorted (\<lambda>x. num_of_key (key x)) r xs"
        by (auto simp: py_sorted_def split: option.splits)
      from True have nums: "\<And>x. x \<in> set xs \<Longrightarrow> \<exists>v. key x = Inr (KNum v)"
        by (simp add: list_all_iff is_KNum_iff)
      show ?thesis
      proof (cases k)
        case (KNum n)
        have "key x = Inr k \<longleftrightarrow> num_of_key (key x) = num_rank n" if "x \<in> set xs" for x
        proof -
          from nums [OF that] obtain v where "key x = Inr (KNum v)" by blast
          then show ?thesis using KNum num_rank_inj [of v n] by (auto simp: num_of_key_def)
        qed
        then show ?thesis unfolding ys by (rule stable_sorted_filter_pred)
      next
        case KNone
        have "\<And>x. x \<in> set xs \<Longrightarrow> \<not> key x = Inr k" using nums KNone by fastforce
        then show ?thesis unfolding ys by (rule stable_sorted_filter_none)
      next
        case (KStr t)
        have "\<And>x. x \<in> set xs \<Longrightarrow> \<not> key x = Inr k" using nums KStr by fastforce
        then show ?thesis unfolding ys by (rule stable_sorted_filter_none)
      qed
    next
      case False
      with assms notstr \<open>\<not> length xs \<le> 1\<close> show ?thesis
        by (auto simp: py_sorted_def split: option.splits)
    qed
  qed
qed

text \<open>
  C8, as amended. Whenever \<open>--sort\<close> accepts its flags and returns \<open>Ok\<close> on a buffer
  none of whose lines has the key \<open>nan\<close>, the new buffer is the joined result of
  \<open>sorted\<close> on the lines of the old one, and for every key the lines with that key stand
  in the result in the order in which they stood before, whether the flags ask for
  ascending or descending order.
\<close>

theorem sort_stable_without_nan:
  assumes "sort_flags h (py_split flags (CHR '','')) sort_defaults = Inr sp"
    and "sort_lines h flags s = Return (Some Ok) s'"
    and "list_all (\<lambda>l. get_value h sp l \<noteq> Inr (KNum NaN)) (splitlines (current_output s))"
  shows "\<exists>ys. py_sorted (sorted_long h) (get_value h sp) (sort_reverse sp)
                (splitlines (current_output s)) = Inr ys \<and>
           current_output s' = join ''\<newline>'' ys \<and>
           (\<forall>k. filter (\<lambda>l. get_value h sp l = Inr k) ys =
                filter (\<lambda>l. get_value h sp l = Inr k) (splitlines (current_output s)))"
proof -
  from assms(1) assms(2) obtain ys where
    ys: "py_sorted (sorted_long h) (get_value h sp) (sort_reverse sp)
           (splitlines (current_output s)) = Inr ys"
    and out: "s' = s\<lparr>current_output := join ''\<newline>'' ys\<rparr>"
    by (auto simp: sort_lines_def Let_def split: if_splits sum.splits)
  from ys assms(3) have "\<forall>k. filter (\<lambda>l. get_value h sp l = Inr k) ys =
                filter (\<lambda>l. get_value h sp l = Inr k) (splitlines (current_output s))"
    by (simp add: py_sorted_stable)
  with ys out show ?thesis by simp
qed

theorem sort_stable_without_nan_witness:
  "sort_lines example_host ''column=2,int'' (example_proc ''b 1\<newline>a 1\<newline>c 0'') =
     Return (Some Ok) (example_proc ''c 0\<newline>b 1\<newline>a 1'') \<and>
   sort_lines example_host ''column=2,int,desc'' (example_proc ''b 1\<newline>a 1\<newline>c 0'') =
     Return (Some Ok) (example_proc ''b 1\<newline>a 1\<newline>c 0'') \<and>
   filter (\<lambda>l. get_value example_host
                  (sort_defaults\<lparr>sort_column := ColIndex 1, sort_use_numeric := True,
                                  sort_key_func := KeyInt\<rparr>) l = Inr (KNum (Fin 1)))
     [''c 0'', ''b 1'', ''a 1''] = [''b 1'', ''a 1'']"
proof -
  let ?sp = "sort_defaults\<lparr>sort_column := ColIndex 1, sort_use_numeric := True, sort_key_func := KeyInt\<rparr>"
  let ?s = "example_proc ''b 1\<newline>a 1\<newline>c 0''"
  have f: "sort_flags example_host (py_split ''column=2,int'' (CHR '','')) sort_defaults = Inr ?sp"
    by code_simp
  have r: "sort_lines example_host ''column=2,int'' ?s =
     Return (Some Ok) (example_proc ''c 0\<newline>b 1\<newline>a 1'')"
    by code_simp
  have d: "sort_lines example_host ''column=2,int,desc'' ?s =
     Return (Some Ok) (example_proc ''b 1\<newline>a 1\<newline>c 0'')"
    by code_simp
  have n: "list_all (\<lambda>l. get_value example_host ?sp l \<noteq> Inr (KNum NaN))
      (splitlines (current_output ?s))"
    by code_simp
  have p: "py_sorted (sorted_long example_host) (get_value example_host ?sp) (sort_reverse ?sp)
      (splitlines (current_output ?s)) = Inr [''c 0'', ''b 1'', ''a 1'']"
    by code_simp
  have l: "splitlines (current_output ?s) = [''b 1'', ''a 1'', ''c 0'']"
    by code_simp
  have k: "filter (\<lambda>l. get_value example_host ?sp l = Inr (KNum (Fin 1))) [''b 1'', ''a 1'', ''c 0''] = [''b 1'', ''a 1'']"
    by code_simp
  from sort_stable_without_nan [OF f r n] p l k
  have "filter (\<lambda>l. get_value example_host ?sp l = Inr (KNum (Fin 1))) [''c 0'', ''b 1'', ''a 1''] = [''b 1'', ''a 1'']"
    by auto
  with r d show ?thesis by simp
qed

text \<open>
  C8 as stated fails where a key is \<open>nan\<close>, which \<open>float\<close> accepts and the validation
  pass lets through. With the flag \<open>float\<close>, the seven lines with the keys 1, 1, 0, 2,
  \<open>nan\<close>, 1, 1 are returned with \<open>Ok\<close> in an order in which the line \<open>1 L6\<close> stands
  before the line \<open>1 L5\<close>, although both have the key 1 and \<open>1 L5\<close> came first.
\<close>

theorem sort_stable_counterexample:
  "sort_lines example_host ''float''
      (example_proc ''1 L0\<newline>1 L1\<newline>0 L2\<newline>2 L3\<newline>nan L4\<newline>1 L5\<newline>1 L6'') =
     Return (Some Ok)
       (example_proc ''0 L2\<newline>1 L0\<newline>1 L1\<newline>1 L6\<newline>2 L3\<newline>nan L4\<newline>1 L5'') \<and>
   filter (\<lambda>l. get_value example_host
                  (sort_defaults\<lparr>sort_use_numeric := True, sort_key_func := KeyFloat\<rparr>) l =
                Inr (KNum (Fin 1)))
     (splitlines ''1 L0\<newline>1 L1\<newline>0 L2\<newline>2 L3\<newline>nan L4\<newline>1 L5\<newline>1 L6'') =
     [''1 L0'', ''1 L1'', ''1 L5'', ''1 L6''] \<and>
   filter (\<lambda>l. get_value example_host
                  (sort_defaults\<lparr>sort_use_numeric := True, sort_key_func := KeyFloat\<rparr>) l =
                Inr (KNum (Fin 1)))
     (splitlines ''0 L2\<newline>1 L0\<newline>1 L1\<newline>1 L6\<newline>2 L3\<newline>nan L4\<newline>1 L5'') =
     [''1 L0'', ''1 L1'', ''1 L6'', ''1 L5''] \<and>
   [''1 L0'', ''1 L1'', ''1 L6'', ''1 L5''] \<noteq> [''1 L0'', ''1 L1'', ''1 L5'', ''1 L6''] \<and>
   sort_flags example_host (py_split ''float'' (CHR '','')) sort_defaults =
     Inr (sort_defaults\<lparr>sort_use_numeric := True, sort_key_func := KeyFloat\<rparr>)"
  by code_simp

lemma first_error_Some:
  "x \<in> set xs \<Longrightarrow> f x = Inl e \<Longrightarrow> first_error f xs \<noteq> None"
  by (induction xs) (auto split: sum.splits)

lemma filter_lines_atomic:
  "filter_lines h pat s = Return (Some st) s' \<Longrightarrow> st \<noteq> Ok \<Longrightarrow> s' = s \<and> st = RegexError"
  by (auto simp: filter_lines_def split: option.splits if_splits)

lemma remove_lines_regex_atomic:
  "remove_lines_regex h pat s = Return (Some st) s' \<Longrightarrow> st \<noteq> Ok \<Longrightarrow> s' = s \<and> st = RegexError"
  by (auto simp: remove_lines_regex_def split: option.splits if_splits)

lemma regex_replace_atomic:
  "regex_replace h pat repl s = Return (Some st) s' \<Longrightarrow> st \<noteq> Ok \<Longrightarrow> s' = s \<and> st = RegexError"
  by (auto simp: regex_replace_def split: option.splits if_splits sum.splits)

lemma sort_lines_atomic:
  "sort_lines h flags s = Return (Some st) s' \<Longrightarrow> st \<noteq> Ok \<Longrightarrow> s' = s"
  by (auto simp: sort_lines_def Let_def split: sum.splits if_splits)

lemma sum_lines_atomic:
  "sum_lines h flags s = Return (Some st) s' \<Longrightarrow> st \<noteq> Ok \<Longrightarrow> s' = s"
  by (auto simp: sum_lines_def Let_def split: sum.splits if_splits)

lemma sort_flags_status:
  "sort_flags h fs sp = Inl st \<Longrightarrow> st = InvalidSortColumn \<or> st = InvalidSortFlag"
  by (induction fs arbitrary: sp) (auto split: if_splits option.splits)

lemma sum_flags_status:
  "sum_flags h fs sp = Inl st \<Longrightarrow> st = InvalidSortColumn \<or> st = InvalidSumFlag"
  by (induction fs arbitrary: sp) (auto simp: Let_def split: if_splits option.splits)

lemma parse_column_None:
  "parse_column h v = None \<longleftrightarrow> py_int v = None \<and> re_compile h (unquote (unescape v)) \<noteq> None"
  by (auto simp: parse_column_def Let_def split: option.splits)

text \<open>
  C3. A pattern that does not compile makes \<open>--filter\<close>, \<open>--filter-out\<close> and \<open>--sub\<close>
  return \<open>RegexError\<close>. Flags that \<open>--sort\<close> or \<open>--sum\<close> reject (a \<open>column=\<close> pattern
  that does not compile among them, with \<open>InvalidSortColumn\<close>) make them return the
  status of the rejection, and a line whose key or value cannot be computed (a column that
  is missing, a text that is no number, and \<open>ignore_error_lines\<close> does not absorb it)
  makes them return \<open>InvalidSortValue\<close> and \<open>InvalidSumValue\<close>. In all these cases, and
  whenever one of the five handlers returns a status other than \<open>Ok\<close>, the processor and
  with it the buffer is what it was before the stage.
\<close>

theorem errors_leave_buffer:
  "(re_compile h pat = Some ReError \<longrightarrow>
      filter_lines h pat s = Return (Some RegexError) s \<and>
      remove_lines_regex h pat s = Return (Some RegexError) s \<and>
      regex_replace h pat repl s = Return (Some RegexError) s) \<and>
   (sort_flags h (py_split flags (CHR '','')) sort_defaults = Inl st \<longrightarrow>
      sort_lines h flags s = Return (Some st) s \<and> (st = InvalidSortColumn \<or> st = InvalidSortFlag)) \<and>
   (sort_flags h (py_split flags (CHR '','')) sort_defaults = Inr sp \<and>
    line \<in> set (splitlines (current_output s)) \<and> get_value h sp line = Inl e \<longrightarrow>
      sort_lines h flags s = Return (Some InvalidSortValue) s) \<and>
   (sum_flags h (py_split flags (CHR '','')) sum_defaults = Inl st \<longrightarrow>
      sum_lines h flags s = Return (Some st) s \<and> (st = InvalidSortColumn \<or> st = InvalidSumFlag)) \<and>
   (sum_flags h (py_split flags (CHR '','')) sum_defaults = Inr sm \<and>
    line \<in> set (splitlines (current_output s)) \<and> sum_get_value h sm line = Inl e \<longrightarrow>
      sum_lines h flags s = Return (Some InvalidSumValue) s) \<and>
   (st \<noteq> Ok \<and>
    (filter_lines h pat s = Return (Some st) s' \<or> remove_lines_regex h pat s = Return (Some st) s' \<or>
     regex_replace h pat repl s = Return (Some st) s' \<or> sort_lines h flags s = Return (Some st) s' \<or>
     sum_lines h flags s = Return (Some st) s') \<longrightarrow> s' = s)"
proof -
  have 1: "re_compile h pat = Some ReError \<longrightarrow>
      filter_lines h pat s = Return (Some RegexError) s \<and>
      remove_lines_regex h pat s = Return (Some RegexError) s \<and>
      regex_replace h pat repl s = Return (Some RegexError) s"
    by (simp add: filter_lines_def remove_lines_regex_def regex_replace_def)
  have 2: "sort_flags h (py_split flags (CHR '','')) sort_defaults = Inl st \<longrightarrow>
      sort_lines h flags s = Return (Some st) s \<and> (st = InvalidSortColumn \<or> st = InvalidSortFlag)"
    using sort_flags_status [of h _ sort_defaults st] by (auto simp: sort_lines_def)
  have 3: "sort_flags h (py_split flags (CHR '','')) sort_defaults = Inr sp \<and>
    line \<in> set (splitlines (current_output s)) \<and> get_value h sp line = Inl e \<longrightarrow>
      sort_lines h flags s = Return (Some InvalidSortValue) s"
    using first_error_Some [of line "splitlines (current_output s)" "get_value h sp" e]
    by (auto simp: sort_lines_def Let_def)
  have 4: "sum_flags h (py_split flags (CHR '','')) sum_defaults = Inl st \<longrightarrow>
      sum_lines h flags s = Return (Some st) s \<and> (st = InvalidSortColumn \<or> st = InvalidSumFlag)"
    using sum_flags_status [of h _ sum_defaults st] by (auto simp: sum_lines_def)
  have 5: "sum_flags h (py_split flags (CHR '','')) sum_defaults = Inr sm \<and>
    line \<in> set (splitlines (current_output s)) \<and> sum_get_value h sm line = Inl e \<longrightarrow>
      sum_lines h flags s = Return (Some InvalidSumValue) s"
    using first_error_Some [of line "splitlines (current_output s)" "sum_get_value h sm" e]
    by (auto simp: sum_lines_def Let_def)
  have 6: "st \<noteq> Ok \<and>
    (filter_lines h pat s = Return (Some st) s' \<or> remove_lines_regex h pat s = Return (Some st) s' \<or>
     regex_replace h pat repl s = Return (Some st) s' \<or> sort_lines h flags s = Return (Some st) s' \<or>
     sum_lines h flags s = Return (Some st) s') \<longrightarrow> s' = s"
    using filter_lines_atomic [of h pat s st s'] remove_lines_regex_atomic [of h pat s st s']
      regex_replace_atomic [of h pat repl s st s'] sort_lines_atomic [of h flags s st s']
      sum_lines_atomic [of h flags s st s']
    by auto
  from 1 2 3 4 5 6 show ?thesis by blast
qed

theorem errors_leave_buffer_witness:
  "filter_lines example_host ''('' (example_proc ''a'') = Return (Some RegexError) (example_proc ''a'') \<and>
   remove_lines_regex example_host ''('' (example_proc ''a'') = Return (Some RegexError) (example_proc ''a'') \<and>
   regex_replace example_host ''('' ''b'' (example_proc ''a'') = Return (Some RegexError) (example_proc ''a'') \<and>
   sort_lines example_host ''column=('' (example_proc ''a'') = Return (Some InvalidSortColumn) (example_proc ''a'') \<and>
   sort_lines example_host ''int'' (example_proc ''a'') = Return (Some InvalidSortValue) (example_proc ''a'') \<and>
   sort_lines example_host ''column=2'' (example_proc ''a'') = Return (Some InvalidSortValue) (example_proc ''a'') \<and>
   sum_lines example_host ''column=('' (example_proc ''a'') = Return (Some InvalidSortColumn) (example_proc ''a'') \<and>
   sum_lines example_host ''int'' (example_proc ''a'') = Return (Some InvalidSumValue) (example_proc ''a'')"
proof -
  let ?s = "example_proc ''a''"
  have c: "re_compile example_host ''('' = Some ReError" by (simp add: example_host_def)
  have l: "''a'' \<in> set (splitlines (current_output ?s))" by code_simp
  have f1: "sort_flags example_host (py_split ''column=('' (CHR '','')) sort_defaults = Inl InvalidSortColumn"
    by code_simp
  have f2: "sort_flags example_host (py_split ''int'' (CHR '','')) sort_defaults =
      Inr (sort_defaults\<lparr>sort_use_numeric := True, sort_key_func := KeyInt\<rparr>)"
    by code_simp
  have v2: "get_value example_host (sort_defaults\<lparr>sort_use_numeric := True, sort_key_func := KeyInt\<rparr>) ''a'' = Inl ValueError"
    by code_simp
  have f3: "sort_flags example_host (py_split ''column=2'' (CHR '','')) sort_defaults =
      Inr (sort_defaults\<lparr>sort_column := ColIndex 1\<rparr>)"
    by code_simp
  have v3: "get_value example_host (sort_defaults\<lparr>sort_column := ColIndex 1\<rparr>) ''a'' = Inl PyException"
    by code_simp
  have g1: "sum_flags example_host (py_split ''column=('' (CHR '','')) sum_defaults = Inl InvalidSortColumn"
    by code_simp
  have g2: "sum_flags example_host (py_split ''int'' (CHR '','')) sum_defaults =
      Inr (sum_defaults\<lparr>sum_key_func := KeyInt, sum_out_func := OutDecimal, sum_flag := ''int''\<rparr>)"
    by code_simp
  have w2: "sum_get_value example_host (sum_defaults\<lparr>sum_key_func := KeyInt, sum_out_func := OutDecimal, sum_flag := ''int''\<rparr>) ''a'' = Inl ValueError"
    by code_simp
  from errors_leave_buffer [of example_host "''(''" ?s "''b''" "''column=(''" InvalidSortColumn] c f1 g1
  have 1: "filter_lines example_host ''('' ?s = Return (Some RegexError) ?s"
    "remove_lines_regex example_host ''('' ?s = Return (Some RegexError) ?s"
    "regex_replace example_host ''('' ''b'' ?s = Return (Some RegexError) ?s"
    "sort_lines example_host ''column=('' ?s = Return (Some InvalidSortColumn) ?s"
    "sum_lines example_host ''column=('' ?s = Return (Some InvalidSortColumn) ?s"
    by blast+
  from errors_leave_buffer [of example_host _ ?s _ "''int''" _ _ "''a''" ValueError] l f2 v2 g2 w2
  have 2: "sort_lines example_host ''int'' ?s = Return (Some InvalidSortValue) ?s"
    "sum_lines example_host ''int'' ?s = Return (Some InvalidSumValue) ?s"
    by blast+
  from errors_leave_buffer [of example_host _ ?s _ "''column=2''" _ _ "''a''" PyException] l f3 v3
  have 3: "sort_lines example_host ''column=2'' ?s = Return (Some InvalidSortValue) ?s"
    by blast
  from 1 2 3 show ?thesis by simp
qed

section \<open>Properties of the interpreter\<close>

lemma parse_command_Cons:
  "parse_command long short req (arg # rest) =
     (if flag_matches long short arg
      then (let a = args_after_flag long arg rest
            in if int (length a) < req then (Inl ParameterCountError, a) else (Inr True, a))
      else (Inr False, arg # rest))"
  by (auto simp: parse_command_def flag_matches_def args_after_flag_def Let_def)

lemma dispatch_first_match:
  "dispatch reg (arg # rest) s =
     (case first_match reg arg of
        None \<Rightarrow> NoMatch
      | Some c \<Rightarrow>
          (let a = args_after_flag (arg_long c) arg rest
           in if int (length a) < param_count c then ParseRaised ParameterCountError a
              else (case parse_command_params c a of
                      (Inl e, a') \<Rightarrow> ParseRaised e a'
                    | (Inr ps, a') \<Rightarrow> Invoked (arg_long c) ps a' (func c ps s))))"
  unfolding first_match_def
  by (induction reg) (simp_all add: parse_command_Cons Let_def)

lemmas eval_defs = registry_def Command_init_def first_match_def flag_matches_def
  args_after_flag_def startswith_def removeprefix_def truthy_def example_proc_def
  CommandProcessor_init_def

lemma first_match_nope: "first_match (registry example_host) ''--nope'' = None"
  by (simp add: eval_defs)

lemma first_match_sub: "first_match (registry example_host) ''--sub'' = Some (registry example_host ! 25)"
  by (simp add: eval_defs)

lemma first_match_exec: "first_match (registry example_host) ''--exec'' = Some (registry example_host ! 7)"
  by (simp add: eval_defs)

lemma first_match_include: "first_match (registry example_host) ''--include'' = Some (registry example_host ! 18)"
  by (simp add: eval_defs)

text \<open>
  C4. When the interpreter comes to a head token that no command of the registry takes,
  neither by its long nor by its short flag, it stops there with \<open>UnknownArgument\<close>,
  whatever \<open>stop_on_error\<close> is: the token and what follows it stay unconsumed, the
  processor is unchanged, and no handler is called any more. The loop is taken at any
  of its iterations (\<open>res\<close> and \<open>tr\<close> are the status and the calls so far), so the token
  may stand anywhere in the argument list where a command is expected.
\<close>

theorem unknown_argument_halts:
  assumes "first_match reg arg = None"
  shows "parse_commands_loop reg (arg # rest) s res tr =
           \<lparr> result = Inr (Some UnknownArgument), remaining = arg # rest, final = s, calls = tr \<rparr>"
  using assms
  by (simp add: parse_commands_loop.simps [of reg "arg # rest"] dispatch_first_match)

theorem unknown_argument_halts_witness:
  "parse_commands_loop (registry example_host) [''--nope'', ''--count''] (example_proc ''x'')
      (Some Ok) [(''--in'', [PyStr ''x''])] =
     \<lparr> result = Inr (Some UnknownArgument), remaining = [''--nope'', ''--count''],
       final = example_proc ''x'', calls = [(''--in'', [PyStr ''x''])] \<rparr> \<and>
   parse_commands_loop (registry example_host) [''--nope'', ''--count'']
      ((example_proc ''x'')\<lparr>stop_on_error := False\<rparr>) (Some Ok) [(''--in'', [PyStr ''x''])] =
     \<lparr> result = Inr (Some UnknownArgument), remaining = [''--nope'', ''--count''],
       final = (example_proc ''x'')\<lparr>stop_on_error := False\<rparr>,
       calls = [(''--in'', [PyStr ''x''])] \<rparr>"
  using unknown_argument_halts [OF first_match_nope] by simp

text \<open>
  C1. Let the head token be taken by a command of fixed arity \<open>n\<close> (the first of the
  registry that takes it), and let fewer than \<open>n\<close> arguments be left once the flag is
  matched: the tokens after it, led by the value of a \<open>--flag=value\<close> token. Then the
  interpreter returns \<open>MissingParameter\<close>; the processor is unchanged and no handler is
  called.
\<close>

theorem missing_parameter_fixed_arity:
  assumes "first_match reg arg = Some c"
    and "0 \<le> param_count c"
    and "int (length (args_after_flag (arg_long c) arg rest)) < param_count c"
  shows "parse_commands_loop reg (arg # rest) s res tr =
           \<lparr> result = Inr (Some MissingParameter),
             remaining = args_after_flag (arg_long c) arg rest, final = s, calls = tr \<rparr>"
  using assms
  by (simp add: parse_commands_loop.simps [of reg "arg # rest"] dispatch_first_match caught_def)

theorem missing_parameter_fixed_arity_witness:
  "param_count (registry example_host ! 25 :: (string list) Command) = 2 \<and>
   parse_commands_loop (registry example_host) [''--sub'', ''a''] (example_proc ''x'')
      (Some NoCommands) [] =
     \<lparr> result = Inr (Some MissingParameter), remaining = [''a''],
       final = example_proc ''x'', calls = [] \<rparr>"
  using missing_parameter_fixed_arity [OF first_match_sub, of "[''a'']" "example_proc ''x''" "Some NoCommands" "[]"]
  by (simp add: eval_defs)

lemma drop_takeWhile: "drop (Suc (length (takeWhile P xs))) xs = tl (dropWhile P xs)"
  by (induction xs) auto

lemma until_params:
  assumes "param_until c = Some tok" "tok \<noteq> []" "param_count c < 0"
  shows "parse_command_params c args =
           (if tok \<in> set args
            then ((case param_convert c of
                     None \<Rightarrow> Inr (map PyStr (takeWhile (\<lambda>a. a \<noteq> tok) args))
                   | Some f \<Rightarrow> convert_all f (takeWhile (\<lambda>a. a \<noteq> tok) args)),
                  tl (dropWhile (\<lambda>a. a \<noteq> tok) args))
            else (Inl ParameterCountError, args))"
  using assms
  by (auto simp: parse_command_params_def truthy_def Let_def drop_takeWhile split: option.splits)

text \<open>
  C5. Let a command have the arity "until the terminator \<open>tok\<close>" (\<open>param_until\<close> set, no
  \<open>param_count\<close>) and no converter, as \<open>--exec\<close> and \<open>--foreach\<close> have, and let \<open>a\<close> be
  the arguments left after its flag. If \<open>tok\<close> occurs in \<open>a\<close>, the parameters are exactly
  the tokens before its first occurrence, the handler is called with them, and the
  arguments that remain are those after that occurrence: the terminator is neither handed
  over nor left. If \<open>tok\<close> does not occur, parsing raises \<open>ParameterCountError\<close> and the
  interpreter returns \<open>MissingParameter\<close> without a handler call.
\<close>

theorem until_terminator_params:
  assumes "first_match reg flag = Some c"
    and "param_count c < 0" "param_until c = Some tok" "tok \<noteq> []" "param_convert c = None"
    and "a = args_after_flag (arg_long c) flag rest"
  shows "parse_command_params c a =
           (if tok \<in> set a
            then (Inr (map PyStr (takeWhile (\<lambda>x. x \<noteq> tok) a)), tl (dropWhile (\<lambda>x. x \<noteq> tok) a))
            else (Inl ParameterCountError, a)) \<and>
         (tok \<in> set a \<longrightarrow>
            dispatch reg (flag # rest) s =
              Invoked (arg_long c) (map PyStr (takeWhile (\<lambda>x. x \<noteq> tok) a))
                (tl (dropWhile (\<lambda>x. x \<noteq> tok) a))
                (func c (map PyStr (takeWhile (\<lambda>x. x \<noteq> tok) a)) s)) \<and>
         (tok \<notin> set a \<longrightarrow>
            parse_commands_loop reg (flag # rest) s res tr =
              \<lparr> result = Inr (Some MissingParameter), remaining = a, final = s, calls = tr \<rparr>)"
proof -
  have params: "parse_command_params c a =
           (if tok \<in> set a
            then (Inr (map PyStr (takeWhile (\<lambda>x. x \<noteq> tok) a)), tl (dropWhile (\<lambda>x. x \<noteq> tok) a))
            else (Inl ParameterCountError, a))"
    using until_params [OF assms(3) assms(4) assms(2), of a] assms(5) by simp
  have len: "\<not> int (length a) < param_count c" using assms(2) by simp
  have disp: "dispatch reg (flag # rest) s =
      (case parse_command_params c a of
         (Inl e, a') \<Rightarrow> ParseRaised e a'
       | (Inr ps, a') \<Rightarrow> Invoked (arg_long c) ps a' (func c ps s))"
    using assms(1) assms(6) len by (simp add: dispatch_first_match Let_def)
  have 2: "tok \<in> set a \<longrightarrow>
            dispatch reg (flag # rest) s =
              Invoked (arg_long c) (map PyStr (takeWhile (\<lambda>x. x \<noteq> tok) a))
                (tl (dropWhile (\<lambda>x. x \<noteq> tok) a))
                (func c (map PyStr (takeWhile (\<lambda>x. x \<noteq> tok) a)) s)"
    by (simp add: disp params)
  have 3: "tok \<notin> set a \<longrightarrow>
            parse_commands_loop reg (flag # rest) s res tr =
              \<lparr> result = Inr (Some MissingParameter), remaining = a, final = s, calls = tr \<rparr>"
    by (simp add: parse_commands_loop.simps [of reg "flag # rest"] disp params caught_def)
  from params 2 3 show ?thesis by blast
qed

theorem until_terminator_params_witness:
  "parse_command_params (registry example_host ! 7 :: (string list) Command)
       [''ls'', ''-l'', '';'', ''--count'', '';''] =
     (Inr [PyStr ''ls'', PyStr ''-l''], [''--count'', '';'']) \<and>
   parse_commands_loop (registry example_host) [''--exec'', ''ls'', ''-l''] (example_proc ''x'')
      (Some NoCommands) [] =
     \<lparr> result = Inr (Some MissingParameter), remaining = [''ls'', ''-l''],
       final = example_proc ''x'', calls = [] \<rparr>"
  using until_terminator_params [OF first_match_exec, of "'';''" "[''ls'', ''-l'', '';'', ''--count'', '';'']" "[''ls'', ''-l'', '';'', ''--count'', '';'']"]
    until_terminator_params [OF first_match_exec, of "'';''" "[''ls'', ''-l'']" "[''ls'', ''-l'']" "example_proc ''x''" "Some NoCommands" "[]"]
  by (simp add: eval_defs)

lemma convert_int_rejects:
  "t \<in> set xs \<Longrightarrow> py_int t = None \<Longrightarrow> convert_all convert_int xs = Inl ValueError"
proof (induction xs)
  case Nil
  then show ?case by simp
next
  case (Cons x xs)
  show ?case
  proof (cases "py_int x")
    case None
    then have "convert_int x = Inl ValueError" by (simp add: convert_int_def)
    then show ?thesis by simp
  next
    case (Some n)
    then have x: "convert_int x = Inr (PyInt n)" by (simp add: convert_int_def)
    from Some Cons.prems have "t \<in> set xs" by auto
    with Cons.IH Cons.prems(2) have "convert_all convert_int xs = Inl ValueError" by simp
    with x show ?thesis by simp
  qed
qed

text \<open>
  C2, as amended. Let the head token be taken by a command whose parameters are converted
  with \<open>int\<close> (\<open>--include\<close>, \<open>--exclude\<close>), with enough arguments after the flag, and let
  \<open>int\<close> reject one of the captured tokens. Then the \<open>ValueError\<close> of the conversion is
  not caught: it leaves \<open>parse_commands\<close>, which returns no status, and the handler is not
  called.
\<close>

theorem converter_rejection_raises:
  assumes "first_match reg arg = Some c"
    and "param_convert c = Some convert_int" "param_until c = None" "0 \<le> param_count c"
    and "a = args_after_flag (arg_long c) arg rest"
    and "param_count c \<le> int (length a)"
    and "t \<in> set (take (nat (param_count c)) a)" "py_int t = None"
  shows "parse_commands_loop reg (arg # rest) s res tr =
           \<lparr> result = Inl ValueError, remaining = drop (nat (param_count c)) a,
             final = s, calls = tr \<rparr>"
proof -
  have conv: "convert_all convert_int (take (nat (param_count c)) a) = Inl ValueError"
    using assms(7) assms(8) by (rule convert_int_rejects)
  have len: "length (take (nat (param_count c)) a) = nat (param_count c)"
    using assms(4) assms(6) by simp
  have params: "parse_command_params c a = (Inl ValueError, drop (nat (param_count c)) a)"
    using assms(2) assms(3) assms(4) conv len
    by (simp add: parse_command_params_def truthy_def Let_def)
  have "dispatch reg (arg # rest) s = ParseRaised ValueError (drop (nat (param_count c)) a)"
    using assms(1) assms(5) assms(6) params by (simp add: dispatch_first_match Let_def)
  then show ?thesis
    by (simp add: parse_commands_loop.simps [of reg "arg # rest"] caught_def)
qed

theorem converter_rejection_raises_witness:
  "parse_commands_loop (registry example_host) [''--include'', ''1'', ''abc'', ''--count'']
      (example_proc ''x'') (Some NoCommands) [] =
     \<lparr> result = Inl ValueError, remaining = [''--count''],
       final = example_proc ''x'', calls = [] \<rparr>"
  using converter_rejection_raises [OF first_match_include, of "[''1'', ''abc'', ''--count'']" "[''1'', ''abc'', ''--count'']" "''abc''" "example_proc ''x''" "Some NoCommands" "[]"]
  by (simp add: eval_defs py_int_def int_of_str_def strip_def py_isspace_def digit_value_def)

text \<open>
  C2 as stated fails: \<open>--include abc 0\<close> does not end with the status
  \<open>MissingParameter\<close> but with an uncaught \<open>ValueError\<close>.
\<close>

theorem converter_rejection_counterexample:
  "result (parse_commands (registry example_host) [''--include'', ''abc'', ''0''] (example_proc [])) = Inl ValueError \<and>
   result (parse_commands (registry example_host) [''--include'', ''abc'', ''0''] (example_proc [])) \<noteq> Inr (Some MissingParameter)"
  by code_simp

end
